theory Spec2Isabelle
  imports Complex_Main "HOL-Library.Word" "HOL-Library.Multiset"
begin

section \<open>Values shared by the packages\<close>

text \<open>
  A Go \<^verbatim>\<open>time.Time\<close> is modelled by the instant it denotes: nanoseconds counted from
  0001-01-01 00:00:00 UTC, so the zero \<^verbatim>\<open>time.Time\<close> is \<open>0\<close>. \<^verbatim>\<open>Before\<close>, \<^verbatim>\<open>After\<close> and
  \<^verbatim>\<open>Equal\<close> compare instants, and \<^verbatim>\<open>In(loc)\<close> keeps the instant, so it is the identity here.
  A \<^verbatim>\<open>float64\<close> is its 64-bit pattern: the persistence code only moves such values.
\<close>

type_synonym time = int
type_synonym float64 = "64 word"

definition Hour :: int where
  "Hour = 3600000000000"

datatype error =
    ErrBegin | ErrExec | ErrCommit | ErrAcquire | ErrQuery | ErrLoadLocation
  | ErrAtoi | ErrHTTP | ErrInvalidStatusCode int | ErrUnmarshal

section \<open>Package data: the upsert statements\<close>

text \<open>
  Every \<^verbatim>\<open>SaveDB\<close> issues one statement of the shape
  \<^verbatim>\<open>INSERT INTO t (cols) VALUES (params) ON CONFLICT ON CONSTRAINT t_pkey DO UPDATE SET c = EXCLUDED.c, ...\<close>.
  A row is the association list of the inserted columns, a table a list of rows.
  The conflict target \<^verbatim>\<open>t_pkey\<close> is the \<^verbatim>\<open>PRIMARY KEY\<close> clause of the table's schema in
  \<^verbatim>\<open>data.DataTypes\<close>.

  The event dates of the records are made by \<^verbatim>\<open>time.Date(y, m, d, h, 0, 0, 0, nyc)\<close>, and the
  driver binds a \<^verbatim>\<open>time.Time\<close> to a \<^verbatim>\<open>DATE\<close> parameter by the year, month and day it shows
  in its own location. An event date is therefore modelled by its wall-clock reading,
  nanoseconds counted from 0001-01-01 00:00:00 on the clock of its location, and the date
  stored for it is the number of its day.

  A value is stored as the column type has it: \<^verbatim>\<open>DATE\<close> keeps the day,
  \<^verbatim>\<open>CHARACTER(n)\<close> pads with blanks to \<open>n\<close> characters, \<^verbatim>\<open>CHARACTER VARYING(n)\<close> cuts blanks
  beyond \<open>n\<close> characters, and both refuse a text that is longer than \<open>n\<close> without its
  trailing blanks. The text, character and date columns of the schemas are typed; for the
  other columns (numbers, booleans, arrays, \<^verbatim>\<open>JSONB\<close>, timestamps) the value is kept as it
  is sent. Columns that no statement writes (\<^verbatim>\<open>adj_close\<close>, \<^verbatim>\<open>search\<close>) are left out.
\<close>

type_synonym wall_time = int

definition Day :: int where
  "Day = 24 * Hour"

datatype sqlval =
    SqlNull | SqlText string | SqlInt int | SqlBool bool | SqlFloat float64
  | SqlTime wall_time | SqlDate int | SqlTextArray "string list"
  | SqlJson "(string \<times> string) list"

type_synonym row = "(string \<times> sqlval) list"
type_synonym table = "row list"

datatype coltype = TText | TVarchar nat | TChar nat | TDate | TOther

text \<open>
  What a statement needs of a table's schema: the types of its columns, the columns of
  \<^verbatim>\<open>PRIMARY KEY\<close>, and whether the table has
  \<^verbatim>\<open>CHECK (LENGTH(TRIM(BOTH composite_figi)) = 12)\<close>.
\<close>

record schema =
  columns :: "(string \<times> coltype) list"
  primary_key :: "string list"
  figi_check :: bool

record upsert_stmt =
  insert_cols :: "string list"
  update_cols :: "string list"

definition col :: "row \<Rightarrow> string \<Rightarrow> sqlval" where
  "col r c = (case map_of r c of Some v \<Rightarrow> v | None \<Rightarrow> SqlNull)"

definition pkey_of :: "string list \<Rightarrow> row \<Rightarrow> sqlval list" where
  "pkey_of pk r = map (col r) pk"

definition col_type :: "schema \<Rightarrow> string \<Rightarrow> coltype" where
  "col_type sch c = (case map_of (columns sch) c of Some ty \<Rightarrow> ty | None \<Rightarrow> TOther)"

definition rtrim :: "string \<Rightarrow> string" where
  "rtrim s = rev (dropWhile (\<lambda>c. c = CHR '' '') (rev s))"

definition trim :: "string \<Rightarrow> string" where
  "trim s = dropWhile (\<lambda>c. c = CHR '' '') (rtrim s)"

fun coerce :: "coltype \<Rightarrow> sqlval \<Rightarrow> sqlval option" where
  "coerce TText v = Some v"
| "coerce TOther v = Some v"
| "coerce TDate (SqlTime t) = Some (SqlDate (t div Day))"
| "coerce (TChar n) (SqlText s) =
     (if length (rtrim s) \<le> n
      then Some (SqlText (rtrim s @ replicate (n - length (rtrim s)) CHR '' ''))
      else None)"
| "coerce (TVarchar n) (SqlText s) =
     (if length (rtrim s) \<le> n then Some (SqlText (take n s)) else None)"
| "coerce ty v = None"

fun figi_ok :: "sqlval \<Rightarrow> bool" where
  "figi_ok (SqlText s) = (length (trim s) = 12)"
| "figi_ok v = False"

text \<open>
  \<open>new_row\<close> pairs the columns of the statement with its arguments. \<open>bind_row\<close> is the row
  the database makes of them, \<^verbatim>\<open>EXCLUDED\<close> in the statement: there is none when the number
  of arguments is not the number of columns, when a value does not fit its column, when a
  key column would be \<^verbatim>\<open>NULL\<close>, or when the check on the composite FIGI fails.
\<close>

definition new_row :: "upsert_stmt \<Rightarrow> sqlval list \<Rightarrow> row" where
  "new_row st params = zip (insert_cols st) params"

definition bind_row :: "schema \<Rightarrow> upsert_stmt \<Rightarrow> sqlval list \<Rightarrow> row option" where
  "bind_row sch st params =
     (if length params \<noteq> length (insert_cols st) then None
      else case those (map (\<lambda>(c, v). coerce (col_type sch c) v) (new_row st params)) of
        None \<Rightarrow> None
      | Some vs \<Rightarrow>
          (let r = zip (insert_cols st) vs
           in if SqlNull \<in> set (pkey_of (primary_key sch) r) then None
              else if figi_check sch \<and> \<not> figi_ok (col r ''composite_figi'') then None
              else Some r))"

definition do_update :: "string list \<Rightarrow> row \<Rightarrow> row \<Rightarrow> row" where
  "do_update set_cols excluded r =
     map (\<lambda>(c, v). if c \<in> set set_cols then (c, col excluded c) else (c, v)) r"

fun insert_on_conflict :: "string list \<Rightarrow> string list \<Rightarrow> row \<Rightarrow> table \<Rightarrow> table" where
  "insert_on_conflict pk set_cols excluded [] = [excluded]"
| "insert_on_conflict pk set_cols excluded (r # rs) =
     (if pkey_of pk r = pkey_of pk excluded
      then do_update set_cols excluded r # rs
      else r # insert_on_conflict pk set_cols excluded rs)"

text \<open>
  A transaction on one connection. \<open>begin_err\<close>, \<open>exec_err\<close> and \<open>commit_err\<close> say which
  of the driver calls fail in this run for a reason outside the model; a statement whose
  arguments the database refuses fails as well. A statement that fails aborts the
  transaction, and committing an aborted or closed transaction persists nothing and
  reports an error.
\<close>

record db_faults =
  begin_err :: bool
  exec_err :: bool
  commit_err :: bool

datatype db_event = Begin | Exec row | Commit | Rollback | LogError string

datatype tx_state = TxOpen | TxAborted | TxClosed

definition tx_Exec ::
  "db_faults \<Rightarrow> schema \<Rightarrow> upsert_stmt \<Rightarrow> sqlval list \<Rightarrow> table \<Rightarrow> bool \<times> table \<times> tx_state" where
  "tx_Exec f sch st params t =
     (if exec_err f then (False, t, TxAborted)
      else case bind_row sch st params of
        None \<Rightarrow> (False, t, TxAborted)
      | Some excluded \<Rightarrow>
          (True, insert_on_conflict (primary_key sch) (update_cols st) excluded t, TxOpen))"

definition tx_Commit :: "db_faults \<Rightarrow> tx_state \<Rightarrow> table \<Rightarrow> table \<Rightarrow> bool \<times> table" where
  "tx_Commit f s committed working =
     (if s = TxOpen \<and> \<not> commit_err f then (True, working) else (False, committed))"

subsection \<open>Eod.SaveDB\<close>

record Eod =
  Eod_Date :: wall_time
  Eod_Ticker :: string
  Eod_CompositeFigi :: string
  Eod_Open :: float64
  Eod_High :: float64
  Eod_Low :: float64
  Eod_Close :: float64
  Eod_Volume :: float64
  Eod_Dividend :: float64
  Eod_Split :: float64

text \<open>The entry \<^verbatim>\<open>EODKey\<close> of \<^verbatim>\<open>data.DataTypes\<close>.\<close>

definition Eod_schema :: schema where
  "Eod_schema = \<lparr>
     columns = [(''ticker'', TVarchar 10), (''composite_figi'', TChar 12), (''event_date'', TDate)],
     primary_key = [''composite_figi'', ''event_date''],
     figi_check = False\<rparr>"

definition Eod_stmt :: upsert_stmt where
  "Eod_stmt = \<lparr>
     insert_cols = [''ticker'', ''composite_figi'', ''event_date'', ''open'', ''high'', ''low'',
                    ''close'', ''volume'', ''dividend'', ''split_factor''],
     update_cols = [''open'', ''high'', ''low'', ''close'', ''volume'', ''dividend'',
                    ''split_factor'']\<rparr>"

definition Eod_params :: "Eod \<Rightarrow> sqlval list" where
  "Eod_params eod =
     [SqlText (Eod_Ticker eod), SqlText (Eod_CompositeFigi eod), SqlTime (Eod_Date eod),
      SqlFloat (Eod_Open eod), SqlFloat (Eod_High eod), SqlFloat (Eod_Low eod),
      SqlFloat (Eod_Close eod), SqlFloat (Eod_Volume eod), SqlFloat (Eod_Dividend eod),
      SqlFloat (Eod_Split eod)]"

text \<open>
  The result is the returned error (\<open>None\<close> is \<^verbatim>\<open>nil\<close>), the table as committed, and the
  driver calls and log lines in order. The deferred commit runs on every path after a
  successful \<^verbatim>\<open>Begin\<close>.
\<close>

definition Eod_SaveDB :: "db_faults \<Rightarrow> Eod \<Rightarrow> table \<Rightarrow> error option \<times> table \<times> db_event list" where
  "Eod_SaveDB f eod t =
     (if begin_err f then (Some ErrBegin, t, [Begin])
      else
        (case tx_Exec f Eod_schema Eod_stmt (Eod_params eod) t of (ok, working, s) \<Rightarrow>
          (case tx_Commit f s t working of (committed, t') \<Rightarrow>
             (None, t',
              [Begin, Exec (new_row Eod_stmt (Eod_params eod))]
              @ (if ok then [] else [LogError ''error saving EOD quote to database''])
              @ [Commit]
              @ (if committed then [] else [LogError ''error committing eod transaction to database'']))))
     )"

subsection \<open>Metric.SaveDB\<close>

record Metric =
  Metric_Ticker :: string
  Metric_CompositeFigi :: string
  Metric_EventDate :: wall_time
  Metric_MarketCap :: int
  Metric_EV :: int
  Metric_PE :: float64
  Metric_PB :: float64
  Metric_PS :: float64
  Metric_EVtoEBIT :: float64
  Metric_EVtoEBITDA :: float64
  Metric_SP500 :: bool





subsection \<open>MarketHoliday.SaveDB\<close>

record MarketHoliday =
  MarketHoliday_Name :: string
  MarketHoliday_EventDate :: wall_time
  MarketHoliday_Market :: string
  MarketHoliday_EarlyClose :: bool
  MarketHoliday_CloseTime :: wall_time





subsection \<open>AnalystRating.SaveDB, EconomicIndicator.SaveDB and Custom.SaveDB\<close>


record AnalystRating =
  AnalystRating_Ticker :: string
  AnalystRating_CompositeFigi :: string
  AnalystRating_EventDate :: wall_time
  AnalystRating_Analyst :: string
  AnalystRating_Rating :: int




record EconomicIndicator =
  EconomicIndicator_Series :: string
  EconomicIndicator_EventDate :: wall_time
  EconomicIndicator_Value :: float64








subsection \<open>Fundamental\<close>

text \<open>
  A \<^verbatim>\<open>Fundamental\<close> carries, besides what identifies it and its dates, a hundred
  measurements, integers and floating-point numbers, that the code only copies; they are
  kept here as one list.
\<close>

record Fundamental =
  Fundamental_Ticker :: string
  Fundamental_CompositeFigi :: string
  Fundamental_Dimension :: string
  Fundamental_EventDate :: wall_time
  Fundamental_DateKey :: wall_time
  Fundamental_ReportPeriod :: wall_time
  Fundamental_LastUpdated :: wall_time
  Fundamental_Measures :: "sqlval list"

subsection \<open>Asset, Asset.ID, Asset.Save and Asset.SaveDB\<close>

record Asset =
  Ticker :: string
  Name :: string
  Description :: string
  PrimaryExchange :: string
  AssetType :: string
  CompositeFigi :: string
  ShareClassFigi :: string
  Active :: bool
  CUSIP :: "string list"
  ISIN :: "string list"
  CIK :: string
  SIC :: int
  ListingDate :: string
  DelistingDate :: string
  Industry :: string
  Sector :: string
  Icon :: "8 word list"
  IconMimeType :: string
  Logo :: "8 word list"
  LogoMimeType :: string
  CorporateUrl :: string
  HeadquartersLocation :: string
  OtherIdentifiers :: "(string \<times> string) list"
  Tags :: "string list"
  SimilarTickers :: "string list"
  LastUpdated :: time

definition UnknownAsset :: string where
  "UnknownAsset = ''Unknown''"

definition CommonStock :: string where
  "CommonStock = ''CS''"

definition ETF :: string where
  "ETF = ''ETF''"

definition CEF :: string where
  "CEF = ''CEF''"

definition ETN :: string where
  "ETN = ''ETN''"

definition MutualFund :: string where
  "MutualFund = ''MF''"

definition ADRC :: string where
  "ADRC = ''ADRC''"

definition ID :: "Asset \<Rightarrow> string" where
  "ID asset = Ticker asset @ '':'' @ CompositeFigi asset"









subsection \<open>The record kinds\<close>
















definition no_faults :: db_faults where
  "no_faults = \<lparr>begin_err = False, exec_err = False, commit_err = False\<rparr>"




subsection \<open>Sample records\<close>

text \<open>
  A quote of 2022-06-08, at the close in New York, and the same quote twelve hours earlier
  on the same day and under the ticker the company took later.
\<close>

definition eod_fb :: Eod where
  "eod_fb = \<lparr>Eod_Date = 63790243200000000000 + 16 * Hour, Eod_Ticker = ''FB'',
     Eod_CompositeFigi = ''BBG000MM2P62'', Eod_Open = 1, Eod_High = 2, Eod_Low = 3, Eod_Close = 4,
     Eod_Volume = 5, Eod_Dividend = 0, Eod_Split = 1\<rparr>"



section \<open>Package library: the totals of the library\<close>

text \<open>
  The rows of \<^verbatim>\<open>subscriptions\<close>, with the columns the summary queries read; every one of
  them is nullable in the schema. \<^verbatim>\<open>QueryRow\<close> evaluates the query texts that
  \<^verbatim>\<open>library/database.go\<close> sends, on these rows; any other text is an error. A sum of
  \<^verbatim>\<open>INTEGER\<close> columns is a \<^verbatim>\<open>BIGINT\<close> and fits the scanned Go \<^verbatim>\<open>int\<close>.
\<close>

record subscription_row =
  row_active :: "bool option"
  row_total_records :: "int option"
  row_total_securities :: "int option"

definition sql_quote :: char where
  "sql_quote = CHR 0x27"

definition where_active :: string where
  "where_active = '' FROM subscriptions WHERE active='' @ [sql_quote, CHR ''t'', sql_quote]"

definition active_rows :: "subscription_row list \<Rightarrow> subscription_row list" where
  "active_rows rows = filter (\<lambda>r. row_active r = Some True) rows"

definition sql_sum :: "int option list \<Rightarrow> int option" where
  "sql_sum vs = (if list_all (\<lambda>v. v = None) vs then None else Some (sum_list (map (\<lambda>v. case v of None \<Rightarrow> 0 | Some n \<Rightarrow> n) vs)))"

definition coalesce :: "'a option \<Rightarrow> 'a \<Rightarrow> 'a" where
  "coalesce v d = (case v of None \<Rightarrow> d | Some x \<Rightarrow> x)"

definition QueryRow :: "string \<Rightarrow> subscription_row list \<Rightarrow> error + int" where
  "QueryRow sql rows =
     (if sql = ''SELECT count(*)'' @ where_active then Inr (int (length (active_rows rows)))
      else if sql = ''SELECT coalesce(sum(total_records), 0)'' @ where_active
        then Inr (coalesce (sql_sum (map row_total_records (active_rows rows))) 0)
      else if sql = ''SELECT coalesce(sum(total_securities), 0)'' @ where_active
        then Inr (coalesce (sql_sum (map row_total_securities (active_rows rows))) 0)
      else Inl ErrQuery)"

text \<open>
  Each function returns \<^verbatim>\<open>(count, err)\<close>: \<open>0\<close> with the error when the pool gives no
  connection, and otherwise what \<^verbatim>\<open>Scan\<close> left in \<^verbatim>\<open>count\<close> (still \<open>0\<close> on an error).
\<close>

definition scan_count :: "error + int \<Rightarrow> int \<times> error option" where
  "scan_count res = (case res of Inl e \<Rightarrow> (0, Some e) | Inr n \<Rightarrow> (n, None))"

definition NumSubscriptions :: "bool \<Rightarrow> subscription_row list \<Rightarrow> int \<times> error option" where
  "NumSubscriptions acquire_ok rows =
     (if \<not> acquire_ok then (0, Some ErrAcquire)
      else scan_count (QueryRow (''SELECT count(*)'' @ where_active) rows))"

definition TotalRecords :: "bool \<Rightarrow> subscription_row list \<Rightarrow> int \<times> error option" where
  "TotalRecords acquire_ok rows =
     (if \<not> acquire_ok then (0, Some ErrAcquire)
      else scan_count (QueryRow (''SELECT coalesce(sum(total_records), 0)'' @ where_active) rows))"

definition TotalSecurities :: "bool \<Rightarrow> subscription_row list \<Rightarrow> int \<times> error option" where
  "TotalSecurities acquire_ok rows =
     (if \<not> acquire_ok then (0, Some ErrAcquire)
      else scan_count (QueryRow (''SELECT coalesce(sum(total_records), 0)'' @ where_active) rows))"

definition sample_subscriptions :: "subscription_row list" where
  "sample_subscriptions =
     [\<lparr>row_active = Some True, row_total_records = Some 100, row_total_securities = Some 7\<rparr>,
      \<lparr>row_active = Some False, row_total_records = Some 50, row_total_securities = Some 3\<rparr>,
      \<lparr>row_active = Some True, row_total_records = Some 20, row_total_securities = None\<rparr>]"

section \<open>Package library: the partitions of a subscription\<close>

text \<open>
  \<^verbatim>\<open>data.DataTypes\<close> is a parameter \<open>registry\<close> of the functions below, since the sources hold
  only part of it; \<open>data_DataTypes\<close> is the part in \<^verbatim>\<open>data/datatype.go\<close>. Looking up a name
  that is not registered gives a \<^verbatim>\<open>nil\<close> pointer, and reading \<^verbatim>\<open>IsPartitioned\<close> through it
  panics, as does \<^verbatim>\<open>DataTables[idx]\<close> beyond the slice.
\<close>

record DataType =
  dt_Name :: string
  dt_Version :: int
  IsPartitioned :: bool

definition data_DataTypes :: "string \<rightharpoonup> DataType" where
  "data_DataTypes = map_of
     [(''asset-description'', \<lparr>dt_Name = ''asset-description'', dt_Version = 0, IsPartitioned = False\<rparr>),
      (''eod'', \<lparr>dt_Name = ''eod'', dt_Version = 0, IsPartitioned = True\<rparr>),
      (''metric'', \<lparr>dt_Name = ''metric'', dt_Version = 0, IsPartitioned = True\<rparr>),
      (''fundamental'', \<lparr>dt_Name = ''fundamental'', dt_Version = 0, IsPartitioned = False\<rparr>),
      (''market-holidays'', \<lparr>dt_Name = ''market-holidays'', dt_Version = 0, IsPartitioned = False\<rparr>)]"

record Subscription =
  sub_ID :: string
  sub_Name :: string
  Config :: "(string \<times> string) list"
  DataTables :: "string list"
  DataTypes :: "string list"
  DataTablesMap :: "(string \<times> string) list"

record dateRange =
  Start :: int
  End :: int

datatype panic = IndexOutOfRange | NilDereference | LogPanic

datatype 'a outcome = Done 'a | Failed error | Panic panic

text \<open>\<^verbatim>\<open>%d\<close> of \<^verbatim>\<open>fmt.Sprintf\<close>.\<close>

fun digits :: "nat \<Rightarrow> string" where
  "digits n = (if n < 10 then [''0123456789'' ! n]
               else digits (n div 10) @ [''0123456789'' ! (n mod 10)])"

definition itoa :: "int \<Rightarrow> string" where
  "itoa i = (if i < 0 then ''-'' @ digits (nat (- i)) else digits (nat i))"

text \<open>
  The statement \<^verbatim>\<open>CREATE TABLE IF NOT EXISTS table PARTITION OF parent FOR VALUES FROM
  ('from-01-01') TO ('to-01-01')\<close>, and the transaction as the list of the statements that
  succeeded. \<open>fails\<close> says which statements the database rejects.
\<close>

record create_partition =
  cp_table :: string
  cp_parent :: string
  cp_from :: int
  cp_to :: int

definition legacy_dates :: "dateRange list" where
  "legacy_dates = [\<lparr>Start = 1900, End = 2000\<rparr>, \<lparr>Start = 2000, End = 2005\<rparr>,
                   \<lparr>Start = 2005, End = 2010\<rparr>, \<lparr>Start = 2010, End = 2015\<rparr>]"

function managePartitions_loop :: "int \<Rightarrow> int \<Rightarrow> dateRange list \<Rightarrow> dateRange list" where
  "managePartitions_loop ii year dates =
     (if ii < year
      then managePartitions_loop (ii + 5) year (dates @ [\<lparr>Start = ii, End = ii + 5\<rparr>])
      else dates)"
  by pat_completeness auto
termination
  by (relation "measure (\<lambda>(ii, year, dates). nat (year - ii))") auto

declare managePartitions_loop.simps [simp del]

definition managePartitions_dates :: "int \<Rightarrow> dateRange list" where
  "managePartitions_dates today_year = managePartitions_loop 2015 (today_year + 1) legacy_dates"

definition partition_name :: "string \<Rightarrow> dateRange \<Rightarrow> string" where
  "partition_name dataTable dt = dataTable @ ''_'' @ itoa (Start dt) @ ''_'' @ itoa (End dt)"

definition partition_stmt :: "string \<Rightarrow> dateRange \<Rightarrow> create_partition" where
  "partition_stmt dataTable dt =
     \<lparr>cp_table = partition_name dataTable dt, cp_parent = dataTable,
      cp_from = Start dt, cp_to = End dt\<rparr>"

fun create_partitions ::
  "(create_partition \<Rightarrow> bool) \<Rightarrow> string \<Rightarrow> dateRange list \<Rightarrow> create_partition list
     \<Rightarrow> create_partition list outcome" where
  "create_partitions fails dataTable [] tx = Done tx"
| "create_partitions fails dataTable (dt # dates) tx =
     (if fails (partition_stmt dataTable dt) then Failed ErrExec
      else create_partitions fails dataTable dates (tx @ [partition_stmt dataTable dt]))"

fun managePartitions_types ::
  "(string \<rightharpoonup> DataType) \<Rightarrow> (create_partition \<Rightarrow> bool) \<Rightarrow> int \<Rightarrow> string list \<Rightarrow> nat
     \<Rightarrow> string list \<Rightarrow> create_partition list \<Rightarrow> create_partition list outcome" where
  "managePartitions_types registry fails today_year tables idx [] tx = Done tx"
| "managePartitions_types registry fails today_year tables idx (dataTypeName # rest) tx =
     (if length tables \<le> idx then Panic IndexOutOfRange
      else case registry dataTypeName of
        None \<Rightarrow> Panic NilDereference
      | Some dataType \<Rightarrow>
          if \<not> IsPartitioned dataType
          then managePartitions_types registry fails today_year tables (Suc idx) rest tx
          else (case create_partitions fails (tables ! idx) (managePartitions_dates today_year) tx of
                  Done tx' \<Rightarrow> managePartitions_types registry fails today_year tables (Suc idx) rest tx'
                | Failed e \<Rightarrow> Failed e
                | Panic p \<Rightarrow> Panic p))"

text \<open>\<open>today_year\<close> is \<^verbatim>\<open>time.Now().Year()\<close>.\<close>

definition managePartitionsWithTransaction ::
  "(string \<rightharpoonup> DataType) \<Rightarrow> (create_partition \<Rightarrow> bool) \<Rightarrow> int \<Rightarrow> Subscription
     \<Rightarrow> create_partition list \<Rightarrow> create_partition list outcome" where
  "managePartitionsWithTransaction registry fails today_year subscription tx =
     managePartitions_types registry fails today_year (DataTables subscription) 0
       (DataTypes subscription) tx"

text \<open>
  \<^verbatim>\<open>ManagePartitions\<close> takes a connection, begins a transaction, creates the partitions and
  commits; what it leaves in the database is the transaction it committed.
\<close>

definition ManagePartitions ::
  "(string \<rightharpoonup> DataType) \<Rightarrow> bool \<Rightarrow> db_faults \<Rightarrow> (create_partition \<Rightarrow> bool) \<Rightarrow> int
     \<Rightarrow> Subscription \<Rightarrow> create_partition list outcome" where
  "ManagePartitions registry acquired f fails today_year subscription =
     (if \<not> acquired then Failed ErrAcquire
      else if begin_err f then Failed ErrBegin
      else case managePartitionsWithTransaction registry fails today_year subscription [] of
        Done tx \<Rightarrow> if commit_err f then Failed ErrCommit else Done tx
      | Failed err \<Rightarrow> Failed err
      | Panic p \<Rightarrow> Panic p)"

function PartitionTables_loop :: "int \<Rightarrow> int \<Rightarrow> dateRange list \<Rightarrow> dateRange list" where
  "PartitionTables_loop ii year dates =
     (if ii < year
      then PartitionTables_loop (ii + 1) year (dates @ [\<lparr>Start = ii, End = ii + 1\<rparr>])
      else dates)"
  by pat_completeness auto
termination
  by (relation "measure (\<lambda>(ii, year, dates). nat (year - ii))") auto

declare PartitionTables_loop.simps [simp del]

definition PartitionTables_dates :: "int \<Rightarrow> dateRange list" where
  "PartitionTables_dates today_year = PartitionTables_loop 2015 (today_year + 1) legacy_dates"

fun PartitionTables_types ::
  "(string \<rightharpoonup> DataType) \<Rightarrow> int \<Rightarrow> string list \<Rightarrow> nat \<Rightarrow> string list \<Rightarrow> string list
     \<Rightarrow> string list outcome" where
  "PartitionTables_types registry today_year tables idx [] acc = Done acc"
| "PartitionTables_types registry today_year tables idx (dataTypeName # rest) acc =
     (if length tables \<le> idx then Panic IndexOutOfRange
      else case registry dataTypeName of
        None \<Rightarrow> Panic NilDereference
      | Some dataType \<Rightarrow>
          if \<not> IsPartitioned dataType
          then PartitionTables_types registry today_year tables (Suc idx) rest acc
          else PartitionTables_types registry today_year tables (Suc idx) rest
                 (acc @ map (partition_name (tables ! idx)) (PartitionTables_dates today_year)))"

definition PartitionTables :: "(string \<rightharpoonup> DataType) \<Rightarrow> int \<Rightarrow> Subscription \<Rightarrow> string list outcome" where
  "PartitionTables registry today_year subscription =
     PartitionTables_types registry today_year (DataTables subscription) 0
       (DataTypes subscription) []"

text \<open>
  Event dates, and the rows a range partition takes: from the lower bound, inclusive, up to
  the upper bound, exclusive, both on the first of January.
\<close>

record date =
  year :: int
  month :: int
  day :: int

definition date_less :: "date \<Rightarrow> date \<Rightarrow> bool" where
  "date_less a b \<longleftrightarrow>
     year a < year b \<or> (year a = year b \<and> (month a < month b \<or> (month a = month b \<and> day a < day b)))"

definition valid_date :: "date \<Rightarrow> bool" where
  "valid_date d \<longleftrightarrow> 1 \<le> month d \<and> month d \<le> 12 \<and> 1 \<le> day d \<and> day d \<le> 31"

definition january_first :: "int \<Rightarrow> date" where
  "january_first y = \<lparr>year = y, month = 1, day = 1\<rparr>"

definition in_range :: "int \<times> int \<Rightarrow> date \<Rightarrow> bool" where
  "in_range r d \<longleftrightarrow> \<not> date_less d (january_first (fst r)) \<and> date_less d (january_first (snd r))"

definition ranges_of :: "string \<Rightarrow> create_partition list \<Rightarrow> (int \<times> int) list" where
  "ranges_of parent tx = map (\<lambda>p. (cp_from p, cp_to p)) (filter (\<lambda>p. cp_parent p = parent) tx)"

definition eod_subscription :: Subscription where
  "eod_subscription = \<lparr>sub_ID = ''4f1c2a9e-0000-4000-8000-000000000001'', sub_Name = ''prices'',
     Config = [], DataTables = [''tiingo_eod_eod_4f1c2''], DataTypes = [''eod''],
     DataTablesMap = [(''eod'', ''tiingo_eod_eod_4f1c2'')]\<rparr>"

text \<open>Consecutive ranges: each starts where the one before it ends.\<close>

definition bounds :: "dateRange \<Rightarrow> int \<times> int" where
  "bounds dt = (Start dt, End dt)"

fun chain :: "int \<Rightarrow> (int \<times> int) list \<Rightarrow> int \<Rightarrow> bool" where
  "chain a [] b = (a = b)"
| "chain a (r # rs) b = (fst r = a \<and> fst r < snd r \<and> chain (snd r) rs b)"

definition created_2024 :: "create_partition list" where
  "created_2024 = map (partition_stmt ''tiingo_eod_eod_4f1c2'')
     [\<lparr>Start = 1900, End = 2000\<rparr>, \<lparr>Start = 2000, End = 2005\<rparr>, \<lparr>Start = 2005, End = 2010\<rparr>,
      \<lparr>Start = 2010, End = 2015\<rparr>, \<lparr>Start = 2015, End = 2020\<rparr>, \<lparr>Start = 2020, End = 2025\<rparr>]"

section \<open>Package figi: enrichment\<close>

text \<open>
  \<^verbatim>\<open>LookupFigi\<close> asks the OpenFIGI service; it is the parameter \<open>lookup\<close>, the map from
  returned ticker to the returned record, as an association list. \<^verbatim>\<open>Enrich\<close> is called with
  one asset in this code. After the inner switch on \<^verbatim>\<open>SecurityType\<close>, the \<^verbatim>\<open>Mutual Fund\<close>
  case assigns \<^verbatim>\<open>data.MutualFund\<close> again, which is therefore the result.
\<close>

record OpenFigiAsset =
  of_Figi :: string
  of_SecurityType :: string
  of_Ticker :: string
  of_ShareClassFIGI :: string
  of_CompositeFIGI :: string
  of_SecurityType2 :: string

definition Enrich :: "(Asset list \<Rightarrow> (string \<times> OpenFigiAsset) list) \<Rightarrow> Asset \<Rightarrow> Asset" where
  "Enrich lookup asset =
     (if (CompositeFigi asset = [] \<or> AssetType asset = UnknownAsset) \<and> DelistingDate asset = []
      then (case map_of (lookup [asset]) (Ticker asset) of
              None \<Rightarrow> asset
            | Some assetFigi \<Rightarrow>
                (let enriched = asset\<lparr>CompositeFigi := of_CompositeFIGI assetFigi,
                                      ShareClassFigi := of_ShareClassFIGI assetFigi\<rparr>
                 in if AssetType asset = UnknownAsset
                    then (if of_SecurityType2 assetFigi = ''Partnership Shares''
                            then enriched\<lparr>AssetType := CommonStock\<rparr>
                          else if of_SecurityType2 assetFigi = ''Depositary Receipt''
                            then enriched\<lparr>AssetType := ADRC\<rparr>
                          else if of_SecurityType2 assetFigi = ''Common Stock''
                            then enriched\<lparr>AssetType := CommonStock\<rparr>
                          else if of_SecurityType2 assetFigi = ''Mutual Fund''
                            then enriched\<lparr>AssetType := MutualFund\<rparr>
                          else enriched)
                    else enriched))
      else asset)"

section \<open>Package provider: Polygon\<close>

subsection \<open>strconv.Atoi\<close>

definition is_digit :: "char \<Rightarrow> bool" where
  "is_digit c \<longleftrightarrow> c \<in> set ''0123456789''"

definition digits_value :: "string \<Rightarrow> int" where
  "digits_value ds = fold (\<lambda>c acc. acc * 10 + (int (of_char c) - 48)) ds 0"

definition Atoi :: "string \<Rightarrow> int option" where
  "Atoi s =
     (let neg = (s \<noteq> [] \<and> hd s = CHR ''-'');
          ds = (if s \<noteq> [] \<and> (hd s = CHR ''-'' \<or> hd s = CHR ''+'') then tl s else s)
      in if ds = [] \<or> \<not> list_all is_digit ds then None
         else (let v = (if neg then - digits_value ds else digits_value ds)
               in if v < - (2 ^ 63) \<or> 2 ^ 63 \<le> v then None else Some v))"

subsection \<open>The world a fetch runs in\<close>

text \<open>
  A fetch waits on its limiter, sends requests, reads the database and the clock, and
  publishes observations. What the outside answers is the record \<open>env\<close>; what the fetch
  does to the outside is the record \<open>world\<close>: the waits and requests in order, and the
  observations sent on the channel.
\<close>

record limiter =
  limit :: rat
  burst :: int

datatype request =
    ListTickers string string
  | FollowCursor string
  | TickerDetails string
  | Download string
  | UpcomingHolidays
  | TiingoPrices string string
  | TiingoSupportedTickers
  | SharadarTickers string
  | SharadarSP500
  | SharadarDaily string string
  | SharadarSF1 string
  | FredObservations string

datatype event = Wait limiter | WaitFailed limiter | Get request

record polygonStock =
  ps_Ticker :: string
  ps_Name :: string
  ps_Description :: string
  ps_CompositeFIGI :: string
  ps_ShareClassFIGI :: string
  ps_PrimaryExchange :: string
  ps_Type :: string
  ps_Active :: bool
  ps_CIK :: string
  ps_SIC :: string
  ps_CorporateURL :: string
  ps_ListDate :: string
  ps_DelistDate :: string
  ps_LogoURL :: string
  ps_IconURL :: string
  ps_City :: string
  ps_State :: string
  ps_LastUpdated :: string

record polygonHoliday =
  ph_Date :: string
  ph_Exchange :: string
  ph_Name :: string
  ph_Open :: string
  ph_Close :: string
  ph_Status :: string

text \<open>
  The \<^verbatim>\<open>results\<close> member of a response body: absent, not of the expected shape, a list of
  tickers, or one ticker.
\<close>

datatype results = Absent | Malformed | Tickers "polygonStock list" | Ticker1 polygonStock

text \<open>
  The members that the other providers read of a response: the daily quotes of Tiingo,
  the rows of a Sharadar datatable (each row a list of members, as texts) with the cursor
  of the next page, and the observations of a FRED series.
\<close>

record tiingoEod =
  te_Date :: string
  te_Open :: float64
  te_High :: float64
  te_Low :: float64
  te_Close :: float64
  te_Volume :: float64
  te_Dividend :: float64
  te_Split :: float64

record fredObservation =
  fo_Date :: string
  fo_Value :: string

record response =
  transport_err :: bool
  StatusCode :: int
  Results :: results
  Next :: string
  Holidays :: "polygonHoliday list"
  Body :: "8 word list"
  ContentType :: string
  Quotes :: "tiingoEod list"
  Table :: "string list list"
  NextCursor :: string
  Observations :: "fredObservation list"

datatype 'a scan = NoRows | ScanError | Row 'a

text \<open>
  The members \<^verbatim>\<open>Metric\<close>, \<^verbatim>\<open>Rating\<close> and \<^verbatim>\<open>EconomicIndicator\<close> of an observation, and
  the member \<^verbatim>\<open>Status\<close> of a run summary, are set by the providers; the declarations of
  \<^verbatim>\<open>data/datatype.go\<close> at hand do not have them yet.
\<close>

record Observation =
  AssetObject :: "Asset option"
  obs_MarketHoliday :: "MarketHoliday option"
  obs_EodQuote :: "Eod option"
  obs_Fundamental :: "Fundamental option"
  obs_Metric :: "Metric option"
  obs_Rating :: "AnalystRating option"
  obs_EconomicIndicator :: "EconomicIndicator option"
  ObservationDate :: time
  obs_SubscriptionID :: string
  obs_SubscriptionName :: string

datatype run_status = NoStatus | RunSuccess | RunFailed

record RunSummary =
  StartTime :: time
  EndTime :: time
  NumObservations :: int
  rs_SubscriptionID :: string
  rs_SubscriptionName :: string
  Status :: run_status

record env =
  http :: "request \<Rightarrow> response"
  wait_ok :: "nat \<Rightarrow> bool"
  load_location_ok :: bool
  parse_rfc3339 :: "string \<Rightarrow> time option"
  parse_date :: "string \<Rightarrow> time option"
  in_new_york :: "time \<Rightarrow> wall_time"
  acquire_ok :: bool
  query_last_updated :: "string \<Rightarrow> string \<Rightarrow> time option scan"
  query_active :: "Asset list option"
  lookup_figi :: "Asset list \<Rightarrow> (string \<times> OpenFigiAsset) list"
  sortFunc :: "Asset list \<Rightarrow> Asset list"
  map_order :: "(string \<times> Asset) list \<Rightarrow> (string \<times> Asset) list"
  start_now :: time
  end_now :: time
  publish_now :: "nat \<Rightarrow> time"
  since_now :: "string \<Rightarrow> time"
  update_now :: "string \<Rightarrow> time"

record world =
  trace :: "event list"
  waits :: nat
  published :: "Observation list"

definition world0 :: world where
  "world0 = \<lparr>trace = [], waits = 0, published = []\<rparr>"

text \<open>An observation for \<^verbatim>\<open>out\<close>, before its variant is set, and the send.\<close>

definition new_Observation :: "env \<Rightarrow> Subscription \<Rightarrow> world \<Rightarrow> Observation" where
  "new_Observation e sub w =
     \<lparr>AssetObject = None, obs_MarketHoliday = None, obs_EodQuote = None, obs_Fundamental = None,
      obs_Metric = None, obs_Rating = None, obs_EconomicIndicator = None,
      ObservationDate = publish_now e (length (published w)),
      obs_SubscriptionID = sub_ID sub, obs_SubscriptionName = sub_Name sub\<rparr>"

definition send_out :: "Observation \<Rightarrow> world \<Rightarrow> world" where
  "send_out ob w = w\<lparr>published := published w @ [ob]\<rparr>"


record polygonAssetFetcher =
  api_subscription :: Subscription
  api_limiter :: limiter

definition limiter_Wait :: "env \<Rightarrow> limiter \<Rightarrow> world \<Rightarrow> bool \<times> world" where
  "limiter_Wait e l w =
     (if wait_ok e (waits w)
      then (True, w\<lparr>trace := trace w @ [Wait l], waits := Suc (waits w)\<rparr>)
      else (False, w\<lparr>trace := trace w @ [WaitFailed l], waits := Suc (waits w)\<rparr>))"

definition client_Get :: "env \<Rightarrow> request \<Rightarrow> world \<Rightarrow> response \<times> world" where
  "client_Get e req w = (http e req, w\<lparr>trace := trace w @ [Get req]\<rparr>)"

text \<open>
  \<^verbatim>\<open>respContent\<close> is decoded into only from a response with a 2xx status, and a member the
  body lacks keeps the value the variable had.
\<close>

record polygonResponse =
  rc_Results :: results
  rc_Next :: string

definition decode :: "response \<Rightarrow> polygonResponse \<Rightarrow> polygonResponse" where
  "decode resp rc =
     (if transport_err resp \<or> StatusCode resp < 200 \<or> 299 < StatusCode resp then rc
      else \<lparr>rc_Results = (if Results resp = Absent then rc_Results rc else Results resp),
            rc_Next = (if Next resp = [] then rc_Next rc else Next resp)\<rparr>)"

definition status_of :: "response \<Rightarrow> int" where
  "status_of resp = (if transport_err resp then 0 else StatusCode resp)"

subsection \<open>publish\<close>

definition zero_Asset :: Asset where
  "zero_Asset = \<lparr>Ticker = [], Name = [], Description = [], PrimaryExchange = [], AssetType = [],
     CompositeFigi = [], ShareClassFigi = [], Active = False, CUSIP = [], ISIN = [], CIK = [],
     SIC = 0, ListingDate = [], DelistingDate = [], Industry = [], Sector = [], Icon = [],
     IconMimeType = [], Logo = [], LogoMimeType = [], CorporateUrl = [],
     HeadquartersLocation = [], OtherIdentifiers = [], Tags = [], SimilarTickers = [],
     LastUpdated = 0\<rparr>"

definition ReplaceAll_dot_slash :: "string \<Rightarrow> string" where
  "ReplaceAll_dot_slash s = map (\<lambda>c. if c = CHR ''.'' then CHR ''/'' else c) s"

text \<open>
  \<^verbatim>\<open>publish\<close> enriches the asset it is handed, in place, and returns it here together with
  the world: the caller's pointer sees the enriched fields.
\<close>

definition publish :: "env \<Rightarrow> polygonAssetFetcher \<Rightarrow> Asset \<Rightarrow> world \<Rightarrow> Asset \<times> world" where
  "publish e api asset w =
     (let asset' = Enrich (lookup_figi e) asset
      in if CompositeFigi asset' = [] then (asset', w)
         else (asset',
               send_out ((new_Observation e (api_subscription api) w)
                           \<lparr>AssetObject :=
                              Some (asset'\<lparr>Ticker := ReplaceAll_dot_slash (Ticker asset')\<rparr>)\<rparr>) w))"

subsection \<open>assets\<close>

definition ticker_asset :: "env \<Rightarrow> polygonStock \<Rightarrow> Asset option" where
  "ticker_asset e ticker =
     (case parse_rfc3339 e (ps_LastUpdated ticker) of
        None \<Rightarrow> None
      | Some lastUpdated \<Rightarrow>
          Some (zero_Asset\<lparr>Ticker := ps_Ticker ticker, Name := ps_Name ticker,
                  CompositeFigi := ps_CompositeFIGI ticker,
                  ShareClassFigi := ps_ShareClassFIGI ticker,
                  PrimaryExchange := ps_PrimaryExchange ticker, AssetType := ps_Type ticker,
                  LastUpdated := lastUpdated, CIK := ps_CIK ticker\<rparr>))"

definition fresh_respContent :: polygonResponse where
  "fresh_respContent = \<lparr>rc_Results = Absent, rc_Next = []\<rparr>"

text \<open>
  The page loop, with the iterations that \<^verbatim>\<open>maxQueries\<close> still allows. The last allowed
  iteration still sends its follow request, whose page is then not read.
\<close>

fun assets_pages ::
  "env \<Rightarrow> polygonAssetFetcher \<Rightarrow> nat \<Rightarrow> response \<Rightarrow> polygonResponse \<Rightarrow> Asset list \<Rightarrow> world
     \<Rightarrow> Asset list outcome \<times> world" where
  "assets_pages e api 0 resp respContent assets w = (Done assets, w)"
| "assets_pages e api (Suc n) resp respContent assets w =
     (if 300 \<le> status_of resp then (Failed (ErrInvalidStatusCode (status_of resp)), w)
      else case rc_Results respContent of
        Absent \<Rightarrow> (Panic NilDereference, w)
      | Tickers polygonTickers \<Rightarrow>
          (let assets' = assets @ List.map_filter (ticker_asset e) polygonTickers
           in if rc_Next respContent = [] then (Done assets', w)
              else (case limiter_Wait e (api_limiter api) w of
                      (False, w1) \<Rightarrow> (Panic LogPanic, w1)
                    | (True, w1) \<Rightarrow>
                        (case client_Get e (FollowCursor (rc_Next respContent)) w1 of
                           (resp', w2) \<Rightarrow>
                             if transport_err resp' then (Failed ErrHTTP, w2)
                             else assets_pages e api n resp'
                                    (decode resp' (respContent\<lparr>rc_Next := []\<rparr>)) assets' w2)))
      | Malformed \<Rightarrow> (Failed ErrUnmarshal, w)
      | Ticker1 t \<Rightarrow> (Failed ErrUnmarshal, w))"

definition assets :: "env \<Rightarrow> polygonAssetFetcher \<Rightarrow> string \<Rightarrow> world \<Rightarrow> Asset list outcome \<times> world" where
  "assets e api assetType w =
     (if \<not> load_location_ok e then (Panic LogPanic, w)
      else case limiter_Wait e (api_limiter api) w of
        (False, w1) \<Rightarrow> (Panic LogPanic, w1)
      | (True, w1) \<Rightarrow>
          (case client_Get e (ListTickers ''true'' assetType) w1 of
             (resp, w2) \<Rightarrow>
               if transport_err resp then (Failed ErrHTTP, w2)
               else assets_pages e api 1000 resp (decode resp fresh_respContent) [] w2))"

subsection \<open>filterAssetsByLastUpdated\<close>

text \<open>
  \<open>query_last_updated\<close> answers the \<^verbatim>\<open>SELECT COALESCE(last_updated, '0001-01-01')\<close> for a
  composite FIGI and a ticker: no row, an error, or the column, \<open>None\<close> when it is \<^verbatim>\<open>NULL\<close>.
  \<^verbatim>\<open>slices.SortFunc\<close> is not stable; it is the parameter \<open>sortFunc\<close>.
\<close>

fun filterAssets_loop ::
  "env \<Rightarrow> Asset list \<Rightarrow> Asset list \<Rightarrow> Asset list \<Rightarrow> (Asset list \<times> Asset list) outcome" where
  "filterAssets_loop e [] assetDetail assetUpdate = Done (assetDetail, assetUpdate)"
| "filterAssets_loop e (asset # rest) assetDetail assetUpdate =
     (case query_last_updated e (CompositeFigi asset) (Ticker asset) of
        NoRows \<Rightarrow> filterAssets_loop e rest (assetDetail @ [asset]) assetUpdate
      | ScanError \<Rightarrow> Failed ErrQuery
      | Row v \<Rightarrow>
          (let lastUpdated = coalesce v 0
           in if LastUpdated asset < lastUpdated
              then filterAssets_loop e rest assetDetail (assetUpdate @ [asset])
              else filterAssets_loop e rest assetDetail assetUpdate))"

definition filterAssetsByLastUpdated :: "env \<Rightarrow> Asset list \<Rightarrow> Asset list outcome" where
  "filterAssetsByLastUpdated e fetched =
     (if \<not> acquire_ok e then Failed ErrAcquire
      else case filterAssets_loop e fetched [] [] of
        Done (assetDetail, assetUpdate) \<Rightarrow>
          (let sorted = sortFunc e assetUpdate;
               numAssetsToUpdate = min (length sorted) 100
           in if 0 < numAssetsToUpdate then Done (assetDetail @ take numAssetsToUpdate sorted)
              else Done assetDetail)
      | Failed err \<Rightarrow> Failed err
      | Panic p \<Rightarrow> Panic p)"

subsection \<open>assetDetail and assetDetails\<close>

definition fetch_image ::
  "env \<Rightarrow> polygonAssetFetcher \<Rightarrow> string \<Rightarrow> world \<Rightarrow> (8 word list \<times> string) outcome \<times> world" where
  "fetch_image e api url w =
     (if url = [] then (Done ([], []), w)
      else case limiter_Wait e (api_limiter api) w of
        (False, w1) \<Rightarrow> (Panic LogPanic, w1)
      | (True, w1) \<Rightarrow>
          (case client_Get e (Download url) w1 of
             (resp, w2) \<Rightarrow>
               if transport_err resp then (Failed ErrHTTP, w2)
               else (Done (Body resp, ContentType resp), w2)))"

definition detail_asset ::
  "Asset \<Rightarrow> polygonStock \<Rightarrow> 8 word list \<times> string \<Rightarrow> 8 word list \<times> string \<Rightarrow> Asset" where
  "detail_asset asset polygonAsset icon logo =
     zero_Asset\<lparr>Ticker := ps_Ticker polygonAsset, CompositeFigi := ps_CompositeFIGI polygonAsset,
       ShareClassFigi := ps_ShareClassFIGI polygonAsset, Name := ps_Name polygonAsset,
       Description := ps_Description polygonAsset, Active := ps_Active polygonAsset,
       PrimaryExchange := ps_PrimaryExchange polygonAsset, AssetType := ps_Type polygonAsset,
       HeadquartersLocation :=
         (if ps_City polygonAsset \<noteq> [] then ps_City polygonAsset @ '', '' @ ps_State polygonAsset
          else []),
       CIK := ps_CIK polygonAsset,
       SIC := (case Atoi (ps_SIC polygonAsset) of None \<Rightarrow> 0 | Some n \<Rightarrow> n),
       CorporateUrl := ps_CorporateURL polygonAsset, Icon := fst icon, IconMimeType := snd icon,
       Logo := fst logo, LogoMimeType := snd logo, ListingDate := ps_ListDate polygonAsset,
       LastUpdated := LastUpdated asset\<rparr>"

definition assetDetail :: "env \<Rightarrow> polygonAssetFetcher \<Rightarrow> Asset \<Rightarrow> world \<Rightarrow> Asset outcome \<times> world" where
  "assetDetail e api asset w =
     (case limiter_Wait e (api_limiter api) w of
        (False, w1) \<Rightarrow> (Panic LogPanic, w1)
      | (True, w1) \<Rightarrow>
          (case client_Get e (TickerDetails (Ticker asset)) w1 of
             (resp, w2) \<Rightarrow>
               if transport_err resp then (Failed ErrHTTP, w2)
               else if 300 \<le> StatusCode resp then (Failed (ErrInvalidStatusCode (StatusCode resp)), w2)
               else (case rc_Results (decode resp fresh_respContent) of
                       Absent \<Rightarrow> (Panic NilDereference, w2)
                     | Ticker1 polygonAsset \<Rightarrow>
                         (case fetch_image e api (ps_IconURL polygonAsset) w2 of
                            (Done icon, w3) \<Rightarrow>
                              (case fetch_image e api (ps_LogoURL polygonAsset) w3 of
                                 (Done logo, w4) \<Rightarrow> (Done (detail_asset asset polygonAsset icon logo), w4)
                               | (Failed err, w4) \<Rightarrow> (Failed err, w4)
                               | (Panic p, w4) \<Rightarrow> (Panic p, w4))
                          | (Failed err, w3) \<Rightarrow> (Failed err, w3)
                          | (Panic p, w3) \<Rightarrow> (Panic p, w3))
                     | Malformed \<Rightarrow> (Failed ErrUnmarshal, w2)
                     | Tickers ts \<Rightarrow> (Failed ErrUnmarshal, w2))))"

fun assetDetails :: "env \<Rightarrow> polygonAssetFetcher \<Rightarrow> Asset list \<Rightarrow> world \<Rightarrow> unit outcome \<times> world" where
  "assetDetails e api [] w = (Done (), w)"
| "assetDetails e api (asset # rest) w =
     (case assetDetail e api asset w of
        (Done fullAsset, w1) \<Rightarrow> assetDetails e api rest (snd (publish e api fullAsset w1))
      | (Failed err, w1) \<Rightarrow> assetDetails e api rest w1
      | (Panic p, w1) \<Rightarrow> (Panic p, w1))"

subsection \<open>delistedAssets\<close>

text \<open>
  \<^verbatim>\<open>inactiveMap\<close> is an association list with one entry for each key; its values are the
  shared asset objects, so an update through the pointer is an update of the entry.
  \<^verbatim>\<open>deactivated\<close> is read only for its keys. A \<^verbatim>\<open>Duration\<close> is a 64-bit count of
  nanoseconds, and \<^verbatim>\<open>Time.Sub\<close> saturates. \<open>since_now\<close> and \<open>update_now\<close> are the readings of
  the clock taken for the candidate stored under a key.
\<close>

fun map_store :: "string \<Rightarrow> Asset \<Rightarrow> (string \<times> Asset) list \<Rightarrow> (string \<times> Asset) list" where
  "map_store k v [] = [(k, v)]"
| "map_store k v ((k', v') # m) = (if k' = k then (k, v) # m else (k', v') # map_store k v m)"

record delisted_state =
  inactiveMap :: "(string \<times> Asset) list"
  deactivated :: "string list"
  updatedCount :: nat

definition Split_T_first :: "string \<Rightarrow> string" where
  "Split_T_first s = takeWhile (\<lambda>c. c \<noteq> CHR ''T'') s"

definition delisted_item ::
  "env \<Rightarrow> polygonAssetFetcher \<Rightarrow> polygonStock \<Rightarrow> delisted_state \<times> world \<Rightarrow> delisted_state \<times> world" where
  "delisted_item e api polygonAsset sw =
     (let lastUpdated = (case parse_rfc3339 e (ps_LastUpdated polygonAsset) of None \<Rightarrow> 0 | Some t \<Rightarrow> t);
          key = ID (zero_Asset\<lparr>Ticker := ps_Ticker polygonAsset,
                                CompositeFigi := ps_CompositeFIGI polygonAsset\<rparr>)
      in case map_of (inactiveMap (fst sw)) key of
           None \<Rightarrow> sw
         | Some inactiveAsset \<Rightarrow>
             (case publish e api
                     (inactiveAsset\<lparr>DelistingDate := Split_T_first (ps_DelistDate polygonAsset),
                                    LastUpdated := lastUpdated, Active := False\<rparr>) (snd sw) of
                (inactiveAsset', w') \<Rightarrow>
                  ((fst sw)\<lparr>inactiveMap := map_store key inactiveAsset' (inactiveMap (fst sw)),
                            deactivated := key # deactivated (fst sw),
                            updatedCount := Suc (updatedCount (fst sw))\<rparr>, w')))"

fun delisted_pages ::
  "env \<Rightarrow> polygonAssetFetcher \<Rightarrow> nat \<Rightarrow> nat \<Rightarrow> response \<Rightarrow> polygonResponse \<Rightarrow> delisted_state
     \<Rightarrow> world \<Rightarrow> delisted_state outcome \<times> world" where
  "delisted_pages e api num_inactive 0 resp respContent st w = (Done st, w)"
| "delisted_pages e api num_inactive (Suc n) resp respContent st w =
     (if 300 \<le> status_of resp then (Failed (ErrInvalidStatusCode (status_of resp)), w)
      else case rc_Results respContent of
        Absent \<Rightarrow> (Panic NilDereference, w)
      | Tickers polygonAssets \<Rightarrow>
          (case fold (delisted_item e api) polygonAssets (st, w) of
             (st', w') \<Rightarrow>
               if rc_Next respContent = [] \<or> num_inactive \<le> updatedCount st' then (Done st', w')
               else (case limiter_Wait e (api_limiter api) w' of
                       (False, w1) \<Rightarrow> (Panic LogPanic, w1)
                     | (True, w1) \<Rightarrow>
                         (case client_Get e (FollowCursor (rc_Next respContent)) w1 of
                            (resp', w2) \<Rightarrow>
                              if transport_err resp' then (Failed ErrHTTP, w2)
                              else delisted_pages e api num_inactive n resp'
                                     (decode resp' (respContent\<lparr>rc_Next := []\<rparr>)) st' w2)))
      | Malformed \<Rightarrow> (Failed ErrUnmarshal, w)
      | Ticker1 t \<Rightarrow> (Failed ErrUnmarshal, w))"

fun delisted_types ::
  "env \<Rightarrow> polygonAssetFetcher \<Rightarrow> nat \<Rightarrow> string list \<Rightarrow> delisted_state \<Rightarrow> world
     \<Rightarrow> delisted_state outcome \<times> world" where
  "delisted_types e api num_inactive [] st w = (Done st, w)"
| "delisted_types e api num_inactive (assetType # rest) st w =
     (case limiter_Wait e (api_limiter api) w of
        (False, w1) \<Rightarrow> (Panic LogPanic, w1)
      | (True, w1) \<Rightarrow>
          (case client_Get e (ListTickers ''false'' assetType) w1 of
             (resp, w2) \<Rightarrow>
               (case delisted_pages e api num_inactive 300 resp (decode resp fresh_respContent)
                       (st\<lparr>updatedCount := 0\<rparr>) w2 of
                  (Done st', w3) \<Rightarrow> delisted_types e api num_inactive rest st' w3
                | (Failed err, w3) \<Rightarrow> (Failed err, w3)
                | (Panic p, w3) \<Rightarrow> (Panic p, w3))))"

definition grace_period :: int where
  "grace_period = 14 * 24 * Hour"

definition time_Sub :: "time \<Rightarrow> time \<Rightarrow> int" where
  "time_Sub t u = max (- (2 ^ 63)) (min (2 ^ 63 - 1) (t - u))"

fun grace_loop ::
  "env \<Rightarrow> polygonAssetFetcher \<Rightarrow> string list \<Rightarrow> (string \<times> Asset) list \<Rightarrow> world \<Rightarrow> world" where
  "grace_loop e api deact [] w = w"
| "grace_loop e api deact ((key, possibleInactiveAsset) # rest) w =
     (if ID possibleInactiveAsset \<in> set deact then grace_loop e api deact rest w
      else if grace_period < time_Sub (since_now e key) (LastUpdated possibleInactiveAsset)
      then grace_loop e api deact rest
             (snd (publish e api
                     (possibleInactiveAsset\<lparr>LastUpdated := update_now e key, Active := False\<rparr>) w))
      else grace_loop e api deact rest w)"

definition inactive_candidates :: "Asset list \<Rightarrow> Asset list \<Rightarrow> Asset list" where
  "inactive_candidates fetched dbActiveAssets =
     filter (\<lambda>asset. ID asset \<notin> set (map ID fetched)) dbActiveAssets"

definition build_inactiveMap :: "Asset list \<Rightarrow> (string \<times> Asset) list" where
  "build_inactiveMap inactive = fold (\<lambda>asset m. map_store (ID asset) asset m) inactive []"

definition delistedAssets ::
  "env \<Rightarrow> polygonAssetFetcher \<Rightarrow> Asset list \<Rightarrow> world \<Rightarrow> unit outcome \<times> world" where
  "delistedAssets e api fetched w =
     (if \<not> load_location_ok e then (Failed ErrLoadLocation, w)
      else if \<not> acquire_ok e then (Failed ErrAcquire, w)
      else case query_active e of
        None \<Rightarrow> (Failed ErrQuery, w)
      | Some dbActiveAssets \<Rightarrow>
          (let inactive = inactive_candidates fetched dbActiveAssets
           in if inactive = [] then (Done (), w)
              else (case delisted_types e api (length inactive) [''CS'', ''ADRC'', ''ETF'']
                           \<lparr>inactiveMap = build_inactiveMap inactive, deactivated = [],
                            updatedCount = 0\<rparr> w of
                      (Done st, w1) \<Rightarrow>
                        (Done (), grace_loop e api (deactivated st) (map_order e (inactiveMap st)) w1)
                    | (Failed err, w1) \<Rightarrow> (Failed err, w1)
                    | (Panic p, w1) \<Rightarrow> (Panic p, w1))))"

subsection \<open>A call of a Fetch function\<close>

text \<open>
  The frame of a running Fetch function: the world outside, the variable \<^verbatim>\<open>runSummary\<close>,
  the count that the deferred function reads when it runs (\<^verbatim>\<open>numObs\<close>, or the length of
  \<^verbatim>\<open>holidays\<close> or of \<^verbatim>\<open>assetDetail\<close>), the deferred calls, last registered first, what has
  been sent on \<^verbatim>\<open>exitNotification\<close>, and how often a connection was released. The
  subscription is the one the command has loaded: \<^verbatim>\<open>cmd/run.go\<close> stops before the call
  when there is none.

  A function called from the body receives the context, the subscription and \<^verbatim>\<open>out\<close>, but
  never \<^verbatim>\<open>exitNotification\<close>: \<open>call\<close> hands it the world and nothing else of the frame.
  When the body returns or panics, \<open>go_exit\<close> runs the deferred calls. Each deferred
  function of a Fetch is one of three: the one that completes and sends the summary, the
  same with \<^verbatim>\<open>Status = RunSuccess\<close> set before the send, and \<^verbatim>\<open>conn.Release\<close>.
\<close>

datatype deferred = SendSummary | SendSummarySuccess | ReleaseConn

record frame =
  outside :: world
  runSummary :: RunSummary
  numObs :: int
  deferred :: "deferred list"
  exitNotification :: "RunSummary list"
  released :: nat

definition new_RunSummary :: "env \<Rightarrow> Subscription \<Rightarrow> RunSummary" where
  "new_RunSummary e sub =
     \<lparr>StartTime = start_now e, EndTime = 0, NumObservations = 0, rs_SubscriptionID = sub_ID sub,
      rs_SubscriptionName = sub_Name sub, Status = NoStatus\<rparr>"

definition frame0 :: frame where
  "frame0 = \<lparr>outside = world0,
     runSummary = \<lparr>StartTime = 0, EndTime = 0, NumObservations = 0, rs_SubscriptionID = [],
                   rs_SubscriptionName = [], Status = NoStatus\<rparr>,
     numObs = 0, deferred = [], exitNotification = [], released = 0\<rparr>"

definition go_defer :: "deferred \<Rightarrow> frame \<Rightarrow> frame" where
  "go_defer d fr = fr\<lparr>deferred := d # deferred fr\<rparr>"

definition call :: "(world \<Rightarrow> 'a \<times> world) \<Rightarrow> frame \<Rightarrow> 'a \<times> frame" where
  "call m fr = (case m (outside fr) of (r, w) \<Rightarrow> (r, fr\<lparr>outside := w\<rparr>))"

definition send_summary :: "env \<Rightarrow> frame \<Rightarrow> frame" where
  "send_summary e fr =
     (let rs = (runSummary fr)\<lparr>EndTime := end_now e, NumObservations := numObs fr\<rparr>
      in fr\<lparr>runSummary := rs, exitNotification := exitNotification fr @ [rs]\<rparr>)"

fun run_deferred :: "env \<Rightarrow> deferred \<Rightarrow> frame \<Rightarrow> frame" where
  "run_deferred e SendSummary fr = send_summary e fr"
| "run_deferred e SendSummarySuccess fr =
     (let rs = (runSummary fr)\<lparr>EndTime := end_now e, NumObservations := numObs fr,
                               Status := RunSuccess\<rparr>
      in fr\<lparr>runSummary := rs, exitNotification := exitNotification fr @ [rs]\<rparr>)"
| "run_deferred e ReleaseConn fr = fr\<lparr>released := Suc (released fr)\<rparr>"

datatype exit_kind = Returned | Panicked

type_synonym fetch_result = "exit_kind \<times> frame"

definition go_exit :: "env \<Rightarrow> exit_kind \<times> frame \<Rightarrow> fetch_result" where
  "go_exit e r = (fst r, fold (run_deferred e) (deferred (snd r)) ((snd r)\<lparr>deferred := []\<rparr>))"

definition go_call :: "env \<Rightarrow> (frame \<Rightarrow> exit_kind \<times> frame) \<Rightarrow> fetch_result" where
  "go_call e body = go_exit e (body frame0)"

definition exit :: "fetch_result \<Rightarrow> exit_kind" where
  "exit r = fst r"

definition final :: "fetch_result \<Rightarrow> world" where
  "final r = outside (snd r)"


text \<open>The number of summaries that a stack of deferred calls will send.\<close>

definition summary_sends :: "deferred list \<Rightarrow> nat" where
  "summary_sends ds = length (filter (\<lambda>d. d \<noteq> ReleaseConn) ds)"

subsection \<open>The Fetch functions of Polygon.Datasets\<close>

definition config_get :: "(string \<times> string) list \<Rightarrow> string \<Rightarrow> string" where
  "config_get cfg k = (case map_of cfg k of None \<Rightarrow> [] | Some v \<Rightarrow> v)"

definition NewLimiter :: "rat \<Rightarrow> int \<Rightarrow> limiter" where
  "NewLimiter r b = \<lparr>limit = r, burst = b\<rparr>"

definition configured_limiter :: "int \<Rightarrow> limiter" where
  "configured_limiter rateLimit =
     NewLimiter (of_int (if rateLimit \<le> 0 then 5000 else rateLimit) / of_int 61) 1"

fun assets_types ::
  "env \<Rightarrow> polygonAssetFetcher \<Rightarrow> string list \<Rightarrow> Asset list \<Rightarrow> world \<Rightarrow> Asset list outcome \<times> world" where
  "assets_types e api [] acc w = (Done acc, w)"
| "assets_types e api (assetType # rest) acc w =
     (case assets e api assetType w of
        (Done tmpAssets, w1) \<Rightarrow> assets_types e api rest (acc @ tmpAssets) w1
      | (Failed err, w1) \<Rightarrow> (Failed err, w1)
      | (Panic p, w1) \<Rightarrow> (Panic p, w1))"

text \<open>
  Stock Tickers. The deferred function reads \<^verbatim>\<open>len(assetDetail)\<close>, which is set by the
  assignment from \<^verbatim>\<open>filterAssetsByLastUpdated\<close>.
\<close>

definition StockTickers_body :: "env \<Rightarrow> Subscription \<Rightarrow> frame \<Rightarrow> exit_kind \<times> frame" where
  "StockTickers_body e sub fr0 =
     (let fr1 = go_defer SendSummary (fr0\<lparr>runSummary := new_RunSummary e sub\<rparr>)
      in case Atoi (config_get (Config sub) ''rateLimit'') of
        None \<Rightarrow> (Returned, fr1)
      | Some rateLimit \<Rightarrow>
          (let api = \<lparr>api_subscription = sub, api_limiter = configured_limiter rateLimit\<rparr>
           in case call (assets_types e api [''CS'', ''ADRC'', ''ETF''] []) fr1 of
                (Failed err, fr2) \<Rightarrow> (Returned, fr2)
              | (Panic p, fr2) \<Rightarrow> (Panicked, fr2)
              | (Done fetched, fr2) \<Rightarrow>
                  (case filterAssetsByLastUpdated e fetched of
                     Failed err \<Rightarrow> (Returned, fr2)
                   | Panic p \<Rightarrow> (Panicked, fr2)
                   | Done details \<Rightarrow>
                       (case call (assetDetails e api details)
                               (fr2\<lparr>numObs := int (length details)\<rparr>) of
                          (Panic p, fr3) \<Rightarrow> (Panicked, fr3)
                        | (Failed err, fr3) \<Rightarrow> (Returned, fr3)
                        | (Done u, fr3) \<Rightarrow>
                            (case call (delistedAssets e api fetched) fr3 of
                               (Panic p, fr4) \<Rightarrow> (Panicked, fr4)
                             | (Failed err, fr4) \<Rightarrow> (Returned, fr4)
                             | (Done u', fr4) \<Rightarrow> (Returned, fr4))))))"

definition StockTickers_Fetch :: "env \<Rightarrow> Subscription \<Rightarrow> fetch_result" where
  "StockTickers_Fetch e sub = go_call e (StockTickers_body e sub)"

text \<open>
  Market Holidays. \<open>parse_date\<close> reads the layout \<^verbatim>\<open>2006-01-02\<close>, which gives a time in
  UTC, and \<open>at_new_york t h m\<close> is the reading of the clock of
  \<^verbatim>\<open>time.Date(t.Year(), t.Month(), t.Day(), h, m, 0, 0, nyc)\<close>. \<open>in_new_york\<close> is the reading
  of the New York clock at an instant, for \<^verbatim>\<open>closeTime.In(nyc)\<close>. The slice \<^verbatim>\<open>holidays\<close> is
  never appended to, so the summary counts no observation. The loop over the holidays
  ends the function when a closing time cannot be read.
\<close>

definition at_new_york :: "time \<Rightarrow> int \<Rightarrow> int \<Rightarrow> wall_time" where
  "at_new_york t h m = (t div Day) * Day + h * Hour + m * (Hour div 60)"




text \<open>
  No request leaves without a token: reading the trace from its start, a \<open>Wait\<close> on the
  limiter \<open>l\<close> that succeeds gives a token, and a \<open>Get\<close> needs the token of the event right
  before it and uses it up.
\<close>

fun has_token :: "limiter \<Rightarrow> bool \<Rightarrow> event list \<Rightarrow> bool" where
  "has_token l tok [] = tok"
| "has_token l tok (Wait l' # evs) = has_token l (l' = l) evs"
| "has_token l tok (WaitFailed l' # evs) = has_token l False evs"
| "has_token l tok (Get req # evs) = has_token l False evs"

fun throttled_from :: "limiter \<Rightarrow> bool \<Rightarrow> event list \<Rightarrow> bool" where
  "throttled_from l tok [] = True"
| "throttled_from l tok (Wait l' # evs) = throttled_from l (l' = l) evs"
| "throttled_from l tok (WaitFailed l' # evs) = throttled_from l False evs"
| "throttled_from l tok (Get req # evs) = (tok \<and> throttled_from l False evs)"

definition throttled :: "limiter \<Rightarrow> event list \<Rightarrow> bool" where
  "throttled l evs = throttled_from l False evs"

section \<open>Package provider: the other fetches\<close>

text \<open>
  The fetches of Tiingo, Sharadar, FRED and Zacks, and the older Stock Tickers fetch of
  Polygon. What they ask of the outside beyond \<open>env\<close> is the record \<open>provider_env\<close>:
  \<^verbatim>\<open>data.ActiveAssets\<close>, whose source is not at hand (\<open>None\<close> when it panics), the date
  fourteen days before now in the layout \<^verbatim>\<open>2006-01-02\<close>, the reading of an RFC 3339 time
  on the clock of its own offset, \<^verbatim>\<open>strconv.ParseFloat\<close>, the number that \<^verbatim>\<open>gjson\<close> reads
  from a text, \<^verbatim>\<open>regexp\<close> matching, the archive and table readers, and the clock.
  A value of \<open>'a result\<close> is what a function without an error result gives: a value, or
  a panic.
\<close>

datatype 'a result = Value 'a | Panics panic

record tiingoAsset =
  ta_Ticker :: string
  ta_Exchange :: string
  ta_AssetType :: string
  ta_StartDate :: string
  ta_EndDate :: string

record provider_env =
  ActiveAssets :: "Asset list option"
  lookback_date :: string
  parse_rfc3339_wall :: "string \<Rightarrow> wall_time option"
  ParseFloat :: "string \<Rightarrow> float64 option"
  json_Float :: "string \<Rightarrow> float64"
  regexp_Match :: "string \<Rightarrow> string \<Rightarrow> bool"
  zip_NewReader :: "8 word list \<Rightarrow> 8 word list option list option"
  UnmarshalBytes :: "8 word list \<Rightarrow> tiingoAsset list option"
  time_Now :: time

text \<open>
  \<^verbatim>\<open>figi.Enrich\<close> on several assets: one lookup for all the assets that lack a composite
  FIGI or a type and have no delisting date, then the update of each of them.
\<close>

definition wants_figi :: "Asset \<Rightarrow> bool" where
  "wants_figi asset \<longleftrightarrow>
     (CompositeFigi asset = [] \<or> AssetType asset = UnknownAsset) \<and> DelistingDate asset = []"

definition Enrich_assets ::
  "(Asset list \<Rightarrow> (string \<times> OpenFigiAsset) list) \<Rightarrow> Asset list \<Rightarrow> Asset list" where
  "Enrich_assets lookup as =
     (let figiMap = lookup (filter wants_figi as)
      in map (\<lambda>asset. if wants_figi asset then Enrich (\<lambda>x. figiMap) asset else asset) as)"

text \<open>
  The rows that \<^verbatim>\<open>gjson\<close> finds under \<^verbatim>\<open>datatable.data\<close>: a row is the list of the texts of
  its members. A member that is missing reads as the empty text and as the number 0.
\<close>

definition row_String :: "string list \<Rightarrow> nat \<Rightarrow> string" where
  "row_String r k = (if k < length r then r ! k else [])"

definition row_Int :: "string list \<Rightarrow> nat \<Rightarrow> int" where
  "row_Int r k = (case Atoi (row_String r k) of None \<Rightarrow> 0 | Some n \<Rightarrow> n)"

subsection \<open>Tiingo: end-of-day quotes\<close>

text \<open>
  The closure of \<^verbatim>\<open>provider/tiingo.go\<close> and the function \<^verbatim>\<open>downloadTiingoEODQuotes\<close> of
  the later version have the same body. The loops are those of the body: the inner one
  sends the quotes of one asset, the outer one ends the function when a request fails.
\<close>

definition ReplaceAll :: "char \<Rightarrow> char \<Rightarrow> string \<Rightarrow> string" where
  "ReplaceAll old new s = map (\<lambda>c. if c = old then new else c) s"

fun tiingo_quotes ::
  "env \<Rightarrow> provider_env \<Rightarrow> Subscription \<Rightarrow> Asset \<Rightarrow> tiingoEod list \<Rightarrow> frame \<Rightarrow> frame" where
  "tiingo_quotes e pe sub asset [] fr = fr"
| "tiingo_quotes e pe sub asset (quote # rest) fr =
     (case parse_rfc3339_wall pe (te_Date quote) of
        None \<Rightarrow> tiingo_quotes e pe sub asset rest fr
      | Some quoteDate \<Rightarrow>
          tiingo_quotes e pe sub asset rest
            (fr\<lparr>outside := send_out
                 ((new_Observation e sub (outside fr))
                    \<lparr>obs_EodQuote := Some
                       \<lparr>Eod_Date = at_new_york quoteDate 16 0, Eod_Ticker = Ticker asset,
                        Eod_CompositeFigi = CompositeFigi asset, Eod_Open = te_Open quote,
                        Eod_High = te_High quote, Eod_Low = te_Low quote,
                        Eod_Close = te_Close quote, Eod_Volume = te_Volume quote,
                        Eod_Dividend = te_Dividend quote, Eod_Split = te_Split quote\<rparr>\<rparr>)
                 (outside fr)\<rparr>))"

fun tiingo_assets_loop ::
  "env \<Rightarrow> provider_env \<Rightarrow> Subscription \<Rightarrow> Asset list \<Rightarrow> frame \<Rightarrow> exit_kind \<times> frame" where
  "tiingo_assets_loop e pe sub [] fr = (Returned, fr)"
| "tiingo_assets_loop e pe sub (asset # rest) fr =
     (case call (client_Get e
                   (TiingoPrices (ReplaceAll (CHR ''/'') (CHR ''-'') (Ticker asset))
                      (lookback_date pe))) fr of
        (resp, fr1) \<Rightarrow>
          if transport_err resp then (Returned, fr1)
          else if 300 \<le> StatusCode resp then tiingo_assets_loop e pe sub rest fr1
          else tiingo_assets_loop e pe sub rest
                 (tiingo_quotes e pe sub asset
                    (if StatusCode resp < 200 then [] else Quotes resp) fr1))"

definition downloadTiingoEODQuotes ::
  "env \<Rightarrow> provider_env \<Rightarrow> Subscription \<Rightarrow> frame \<Rightarrow> exit_kind \<times> frame" where
  "downloadTiingoEODQuotes e pe sub fr0 =
     (let fr1 = go_defer SendSummary (fr0\<lparr>runSummary := new_RunSummary e sub, numObs := 0\<rparr>)
      in case Atoi (config_get (Config sub) ''rateLimit'') of
        None \<Rightarrow> (Returned, fr1)
      | Some rateLimit \<Rightarrow>
          if \<not> load_location_ok e then (Panicked, fr1)
          else (case call (limiter_Wait e (configured_limiter rateLimit)) fr1 of
                  (False, fr2) \<Rightarrow> (Panicked, fr2)
                | (True, fr2) \<Rightarrow>
                    if \<not> acquire_ok e then (Panicked, fr2)
                    else (let fr3 = go_defer ReleaseConn fr2
                          in case ActiveAssets pe of
                               None \<Rightarrow> (Panicked, fr3)
                             | Some assets0 \<Rightarrow> tiingo_assets_loop e pe sub assets0 fr3)))"

definition Tiingo_EOD_Fetch :: "env \<Rightarrow> provider_env \<Rightarrow> Subscription \<Rightarrow> fetch_result" where
  "Tiingo_EOD_Fetch e pe sub = go_call e (downloadTiingoEODQuotes e pe sub)"

definition downloadTiingoEODQuotes_Fetch ::
  "env \<Rightarrow> provider_env \<Rightarrow> Subscription \<Rightarrow> fetch_result" where
  "downloadTiingoEODQuotes_Fetch e pe sub = go_call e (downloadTiingoEODQuotes e pe sub)"

subsection \<open>Tiingo: stock tickers\<close>

definition HasPrefix :: "string \<Rightarrow> string \<Rightarrow> bool" where
  "HasPrefix s p \<longleftrightarrow> take (length p) s = p"

definition tiingoIgnoreTicker :: "provider_env \<Rightarrow> string \<Rightarrow> bool" where
  "tiingoIgnoreTicker pe ticker \<longleftrightarrow>
     HasPrefix ticker ''ATEST'' \<or> HasPrefix ticker ''NTEST'' \<or> HasPrefix ticker ''PTEST''
     \<or> CHR '' '' \<in> set ticker
     \<or> regexp_Match pe ''^[A-Za-z0-9]+-[WPU]{1}.*$'' ticker
     \<or> regexp_Match pe ''^[A-Za-z0-9]{4}[WPU]{1}.*$'' ticker"

text \<open>
  One row of the supported tickers: the asset made of it, if the row is kept. A date that
  cannot be read is the zero time, and \<^verbatim>\<open>Time.Sub\<close> saturates.
\<close>

definition tiingo_asset :: "env \<Rightarrow> provider_env \<Rightarrow> tiingoAsset \<Rightarrow> Asset option" where
  "tiingo_asset e pe asset =
     (if ta_Exchange asset \<notin> set [''AMEX'', ''BATS'', ''NASDAQ'', ''NMFQS'', ''NYSE'', ''NYSE ARCA'',
                                    ''NYSE MKT''] then None
      else if ta_StartDate asset = [] \<and> ta_EndDate asset = [] then None
      else if tiingoIgnoreTicker pe (ta_Ticker asset) then None
      else
        (let myAsset = zero_Asset\<lparr>Ticker := ReplaceAll (CHR ''-'') (CHR ''/'') (ta_Ticker asset),
               ListingDate := ta_StartDate asset, DelistingDate := ta_EndDate asset,
               PrimaryExchange := ta_Exchange asset,
               AssetType := (if ta_AssetType asset = ''Stock'' then CommonStock
                             else if ta_AssetType asset = ''ETF'' then ETF
                             else if ta_AssetType asset = ''Mutual Fund'' then MutualFund
                             else [])\<rparr>;
             endDate = (case parse_date e (ta_EndDate asset) of None \<Rightarrow> 0 | Some t \<Rightarrow> t);
             myAsset' = (if ta_EndDate asset \<noteq> [] \<and> time_Sub (time_Now pe) endDate < Hour * 24 * 7
                         then myAsset\<lparr>DelistingDate := []\<rparr> else myAsset)
         in if DelistingDate myAsset' = [] then Some myAsset' else None))"

fun tiingo_publish :: "env \<Rightarrow> Subscription \<Rightarrow> Asset list \<Rightarrow> frame \<Rightarrow> frame" where
  "tiingo_publish e sub [] fr = fr"
| "tiingo_publish e sub (asset # rest) fr =
     (if CompositeFigi asset = [] then tiingo_publish e sub rest fr
      else tiingo_publish e sub rest
             (fr\<lparr>outside := send_out
                  ((new_Observation e sub (outside fr))
                     \<lparr>AssetObject :=
                        Some (asset\<lparr>Ticker := ReplaceAll (CHR ''-'') (CHR ''/'') (Ticker asset)\<rparr>)\<rparr>)
                  (outside fr)\<rparr>))"

definition downloadTiingoAssets ::
  "env \<Rightarrow> provider_env \<Rightarrow> Subscription \<Rightarrow> frame \<Rightarrow> exit_kind \<times> frame" where
  "downloadTiingoAssets e pe sub fr0 =
     (let fr1 = go_defer SendSummary (fr0\<lparr>runSummary := new_RunSummary e sub, numObs := 0\<rparr>)
      in case call (client_Get e TiingoSupportedTickers) fr1 of
        (resp, fr2) \<Rightarrow>
          if 400 \<le> status_of resp then (Returned, fr2)
          else if transport_err resp then (Returned, fr2)
          else (case zip_NewReader pe (Body resp) of
                  None \<Rightarrow> (Returned, fr2)
                | Some [] \<Rightarrow> (Returned, fr2)
                | Some (zipFile # others) \<Rightarrow>
                    (case zipFile of
                       None \<Rightarrow> (Returned, fr2)
                     | Some tickerCsvBytes \<Rightarrow>
                         (case UnmarshalBytes pe tickerCsvBytes of
                            None \<Rightarrow> (Returned, fr2)
                          | Some assets0 \<Rightarrow>
                              (Returned,
                               tiingo_publish e sub
                                 (Enrich_assets (lookup_figi e)
                                    (List.map_filter (tiingo_asset e pe) assets0)) fr2)))))"

definition downloadTiingoAssets_Fetch ::
  "env \<Rightarrow> provider_env \<Rightarrow> Subscription \<Rightarrow> fetch_result" where
  "downloadTiingoAssets_Fetch e pe sub = go_call e (downloadTiingoAssets e pe sub)"

subsection \<open>Sharadar: the cursor loop\<close>

text \<open>
  The three Sharadar fetches follow the cursor of the server for as long as it gives one:
  \<^verbatim>\<open>for { cursor = download(cursor); if cursor == "" { break } }\<close>. Nothing bounds the loop, so
  it is run with fuel, and \<open>None\<close> is a fetch that has not come to its end.
\<close>

fun cursor_loop ::
  "nat \<Rightarrow> (string \<Rightarrow> world \<Rightarrow> string result \<times> world) \<Rightarrow> string \<Rightarrow> frame
     \<Rightarrow> (exit_kind \<times> frame) option" where
  "cursor_loop 0 download cursor fr = None"
| "cursor_loop (Suc n) download cursor fr =
     (case call (download cursor) fr of
        (Panics p, fr1) \<Rightarrow> Some (Panicked, fr1)
      | (Value cursor', fr1) \<Rightarrow>
          if cursor' = [] then Some (Returned, fr1) else cursor_loop n download cursor' fr1)"

definition go_call_fuel ::
  "env \<Rightarrow> (frame \<Rightarrow> (exit_kind \<times> frame) option) \<Rightarrow> fetch_result option" where
  "go_call_fuel e body = map_option (go_exit e) (body frame0)"

text \<open>
  What \<^verbatim>\<open>gjson\<close> reads in the body of a response: the rows under \<^verbatim>\<open>datatable.data\<close> and
  the text under \<^verbatim>\<open>meta.next_cursor_id\<close>. A request that failed has left no body.
\<close>

definition datatable_data :: "response \<Rightarrow> string list list" where
  "datatable_data resp = (if transport_err resp then [] else Table resp)"

definition next_cursor_id :: "response \<Rightarrow> string" where
  "next_cursor_id resp = (if transport_err resp then [] else NextCursor resp)"

subsection \<open>Sharadar: tickers\<close>

text \<open>
  The exchanges and the asset type \<^verbatim>\<open>INDEX\<close> of package \<^verbatim>\<open>data\<close> are constants whose
  declarations are not at hand; they are the parameters below. \<^verbatim>\<open>ToAsset\<close> panics on an
  exchange or a category it does not know; \<open>NormalizedExchange\<close> and \<open>NormalizedCategory\<close>
  give \<open>None\<close> there.
\<close>

record data_constants =
  BATSExchange :: string
  NasdaqExchange :: string
  NMFQSExchange :: string
  NYSEExchange :: string
  ARCAExchange :: string
  NYSEMktExchange :: string
  IndexExchange :: string
  OTCExchange :: string
  UnknownExchange :: string
  INDEX :: string

definition NormalizedExchange :: "data_constants \<Rightarrow> string \<Rightarrow> string option" where
  "NormalizedExchange dc exchange =
     (if exchange = ''BATS'' then Some (BATSExchange dc)
      else if exchange = ''NASDAQ'' then Some (NasdaqExchange dc)
      else if exchange = ''NMFQS'' then Some (NMFQSExchange dc)
      else if exchange = ''NYSE'' then Some (NYSEExchange dc)
      else if exchange = ''NYSEARCA'' then Some (ARCAExchange dc)
      else if exchange = ''NYSEMKT'' then Some (NYSEMktExchange dc)
      else if exchange = ''INDEX'' then Some (IndexExchange dc)
      else if exchange = ''OTC'' then Some (OTCExchange dc)
      else if exchange = ''AMEX'' then Some (NYSEMktExchange dc)
      else None)"

definition NormalizedCategory :: "data_constants \<Rightarrow> string \<Rightarrow> string option" where
  "NormalizedCategory dc category =
     (if category = ''ETF'' then Some ETF
      else if category = ''CEF'' then Some CEF
      else if category = ''ETN'' then Some ETN
      else if category = ''IDX'' then Some (INDEX dc)
      else if category \<in> set [''ADR Common Stock Primary Class'', ''ADR Common Stock'',
                                ''ADR Common Stock Secondary Class''] then Some ADRC
      else if category \<in> set [''Domestic Common Stock'', ''Domestic Common Stock Secondary Class'',
                                ''Domestic Common Stock Primary Class''] then Some CommonStock
      else if category \<in> set [''ETD'', ''CEF Warrant'', ''CEF Preferred'', ''UNIT'', ''ETMF'',
                                ''ADR Preferred Stock'', ''Canadian Common Stock'',
                                ''Canadian Common Stock Primary Class'',
                                ''Canadian Common Stock Warrant'', ''Canadian Preferred Stock'',
                                ''Canadian Common Stock Secondary Class'',
                                ''Domestic Common Stock Warrant'', ''ADR Common Stock Warrant'',
                                ''Institutional Investor'', ''Domestic Preferred Stock'']
        then Some UnknownAsset
      else None)"

text \<open>
  What \<^verbatim>\<open>downloadSharadarTickers\<close> reads of a row and what \<^verbatim>\<open>ToAsset\<close> makes of it. The
  dates of a row are read with the layout \<^verbatim>\<open>2006-01-02\<close>; \<open>Format\<close> and \<open>find_cik\<close> stand for
  \<^verbatim>\<open>Time.Format(time.RFC3339)\<close> and for the search of \<^verbatim>\<open>CIK=(\d+)\<close>; the last price date is
  read from member 22, as the first price date is.
\<close>

record sharadar_env =
  Format :: "time \<Rightarrow> string"
  find_cik :: "string \<Rightarrow> string option"
  Itoa :: "int \<Rightarrow> string"
  Split_blank :: "string \<Rightarrow> string list"
  TrimSpace :: "string \<Rightarrow> string"

definition row_date :: "env \<Rightarrow> string list \<Rightarrow> nat \<Rightarrow> time \<Rightarrow> time" where
  "row_date e r k fallback =
     (if row_String r k = [] then 0
      else case parse_date e (row_String r k) of None \<Rightarrow> fallback | Some t \<Rightarrow> t)"

definition ToAsset ::
  "env \<Rightarrow> provider_env \<Rightarrow> sharadar_env \<Rightarrow> data_constants \<Rightarrow> string list \<Rightarrow> Asset result" where
  "ToAsset e pe se dc r =
     (case NormalizedExchange dc (row_String r 4) of
        None \<Rightarrow> Panics LogPanic
      | Some exchange \<Rightarrow>
          (case NormalizedCategory dc (row_String r 6) of
             None \<Rightarrow> Panics LogPanic
           | Some category \<Rightarrow>
               (let active = (row_String r 5 = ''N'');
                    cusips = TrimSpace se (row_String r 7);
                    related = TrimSpace se (row_String r 17)
                in Value (zero_Asset\<lparr>
                     Ticker := ReplaceAll (CHR ''.'') (CHR ''/'') (row_String r 2),
                     Name := row_String r 3, PrimaryExchange := exchange, AssetType := category,
                     Active := active, CorporateUrl := row_String r 27, SIC := row_Int r 8,
                     HeadquartersLocation := row_String r 19, Industry := row_String r 14,
                     Sector := row_String r 13,
                     ListingDate := Format se (row_date e r 21 0),
                     OtherIdentifiers := [(''sharadar'', Itoa se (row_Int r 1))],
                     LastUpdated := row_date e r 20 (time_Now pe),
                     CUSIP := (if cusips \<noteq> [] then Split_blank se cusips else []),
                     SimilarTickers := (if related \<noteq> [] then Split_blank se related else []),
                     CIK := (case find_cik se (row_String r 26) of None \<Rightarrow> [] | Some c \<Rightarrow> c),
                     DelistingDate := (if active then [] else Format se (row_date e r 22 0))\<rparr>))))"

text \<open>
  The rows of a page, in order: a row without an exchange is skipped before \<^verbatim>\<open>ToAsset\<close>,
  assets of unknown kinds are skipped after it, and the active ones among the rest are
  enriched. The result is \<^verbatim>\<open>allAssets\<close>, in which the enriched assets stand in their
  places, or the panic of \<^verbatim>\<open>ToAsset\<close>.
\<close>

fun sharadar_rows ::
  "env \<Rightarrow> provider_env \<Rightarrow> sharadar_env \<Rightarrow> data_constants \<Rightarrow> string list list \<Rightarrow> Asset list
     \<Rightarrow> Asset list result" where
  "sharadar_rows e pe se dc [] allAssets = Value allAssets"
| "sharadar_rows e pe se dc (r # rest) allAssets =
     (if row_String r 4 = [] then sharadar_rows e pe se dc rest allAssets
      else case ToAsset e pe se dc r of
        Panics p \<Rightarrow> Panics p
      | Value pvAsset \<Rightarrow>
          if PrimaryExchange pvAsset = OTCExchange dc \<or> PrimaryExchange pvAsset = IndexExchange dc
             \<or> PrimaryExchange pvAsset = UnknownExchange dc \<or> AssetType pvAsset = INDEX dc
             \<or> AssetType pvAsset = UnknownAsset
          then sharadar_rows e pe se dc rest allAssets
          else sharadar_rows e pe se dc rest (allAssets @ [pvAsset]))"

definition Enrich_active ::
  "(Asset list \<Rightarrow> (string \<times> OpenFigiAsset) list) \<Rightarrow> Asset list \<Rightarrow> Asset list" where
  "Enrich_active lookup allAssets =
     (let figiMap = lookup (filter (\<lambda>a. Active a \<and> wants_figi a) allAssets)
      in map (\<lambda>asset. if Active asset \<and> wants_figi asset then Enrich (\<lambda>x. figiMap) asset
                       else asset) allAssets)"

definition send_assets :: "env \<Rightarrow> Subscription \<Rightarrow> Asset list \<Rightarrow> world \<Rightarrow> world" where
  "send_assets e sub as w =
     fold (\<lambda>asset w'. send_out ((new_Observation e sub w')\<lparr>AssetObject := Some asset\<rparr>) w') as w"

definition downloadSharadarTickers ::
  "env \<Rightarrow> provider_env \<Rightarrow> sharadar_env \<Rightarrow> data_constants \<Rightarrow> Subscription \<Rightarrow> string \<Rightarrow> world
     \<Rightarrow> string result \<times> world" where
  "downloadSharadarTickers e pe se dc sub cursor w =
     (if \<not> load_location_ok e then (Panics LogPanic, w)
      else case client_Get e (SharadarTickers cursor) w of
        (resp, w1) \<Rightarrow>
          if 400 \<le> status_of resp then (Value [], w1)
          else (case sharadar_rows e pe se dc (datatable_data resp) [] of
                  Panics p \<Rightarrow> (Panics p, w1)
                | Value allAssets \<Rightarrow>
                    (Value (next_cursor_id resp),
                     send_assets e sub (Enrich_active (lookup_figi e) allAssets) w1)))"

definition downloadAllSharadarTickers ::
  "nat \<Rightarrow> env \<Rightarrow> provider_env \<Rightarrow> sharadar_env \<Rightarrow> data_constants \<Rightarrow> Subscription \<Rightarrow> frame
     \<Rightarrow> (exit_kind \<times> frame) option" where
  "downloadAllSharadarTickers fuel e pe se dc sub fr0 =
     cursor_loop fuel (downloadSharadarTickers e pe se dc sub) []
       (go_defer SendSummarySuccess (fr0\<lparr>runSummary := new_RunSummary e sub, numObs := 0\<rparr>))"

definition downloadAllSharadarTickers_Fetch ::
  "nat \<Rightarrow> env \<Rightarrow> provider_env \<Rightarrow> sharadar_env \<Rightarrow> data_constants \<Rightarrow> Subscription
     \<Rightarrow> fetch_result option" where
  "downloadAllSharadarTickers_Fetch fuel e pe se dc sub =
     go_call_fuel e (downloadAllSharadarTickers fuel e pe se dc sub)"

subsection \<open>Sharadar: daily metrics\<close>

text \<open>
  \<^verbatim>\<open>PvMetric\<close>: the composite FIGI is that of the active asset with the metric's ticker, and
  stays empty when there is none; a date that cannot be read leaves the zero time. The
  amounts are in millions in the response: \<open>to_units\<close> stands for \<^verbatim>\<open>int64(x * 1e6)\<close>.
\<close>

record sharadarMetric =
  sm_Ticker :: string
  sm_Date :: string
  sm_LastUpdated :: string
  sm_EV :: float64
  sm_EVtoEBIT :: float64
  sm_EVtoEBITDA :: float64
  sm_MarketCap :: float64
  sm_PB :: float64
  sm_PE :: float64
  sm_PS :: float64

definition row_metric :: "provider_env \<Rightarrow> string list \<Rightarrow> sharadarMetric" where
  "row_metric pe r =
     \<lparr>sm_Ticker = row_String r 0, sm_Date = row_String r 1, sm_LastUpdated = row_String r 2,
      sm_EV = json_Float pe (row_String r 3), sm_EVtoEBIT = json_Float pe (row_String r 4),
      sm_EVtoEBITDA = json_Float pe (row_String r 5), sm_MarketCap = json_Float pe (row_String r 6),
      sm_PB = json_Float pe (row_String r 7), sm_PE = json_Float pe (row_String r 8),
      sm_PS = json_Float pe (row_String r 9)\<rparr>"

definition PvMetric ::
  "env \<Rightarrow> (float64 \<Rightarrow> int) \<Rightarrow> string list \<Rightarrow> (string \<times> string) list \<Rightarrow> sharadarMetric \<Rightarrow> Metric" where
  "PvMetric e to_units sp500Map figiMap metric =
     \<lparr>Metric_Ticker = sm_Ticker metric,
      Metric_CompositeFigi = (case map_of figiMap (sm_Ticker metric) of None \<Rightarrow> [] | Some figi \<Rightarrow> figi),
      Metric_EventDate = (case parse_date e (sm_Date metric) of
                            None \<Rightarrow> 0 | Some date \<Rightarrow> at_new_york date 0 0),
      Metric_MarketCap = to_units (sm_MarketCap metric), Metric_EV = to_units (sm_EV metric),
      Metric_PE = sm_PE metric, Metric_PB = sm_PB metric, Metric_PS = sm_PS metric,
      Metric_EVtoEBIT = sm_EVtoEBIT metric, Metric_EVtoEBITDA = sm_EVtoEBITDA metric,
      Metric_SP500 = (sm_Ticker metric \<in> set sp500Map)\<rparr>"

text \<open>
  The map from ticker to composite FIGI made of the active assets: a later asset with the
  same ticker takes the place of an earlier one.
\<close>

definition figi_map :: "Asset list \<Rightarrow> (string \<times> string) list" where
  "figi_map assets0 = rev (map (\<lambda>asset. (Ticker asset, CompositeFigi asset)) assets0)"

definition send_metrics ::
  "env \<Rightarrow> Subscription \<Rightarrow> Metric list \<Rightarrow> world \<Rightarrow> world" where
  "send_metrics e sub ms w =
     fold (\<lambda>metric w'. send_out ((new_Observation e sub w')\<lparr>obs_Metric := Some metric\<rparr>) w') ms w"

definition downloadSharadarMetrics ::
  "env \<Rightarrow> provider_env \<Rightarrow> (float64 \<Rightarrow> int) \<Rightarrow> Subscription \<Rightarrow> string \<Rightarrow> string list
     \<Rightarrow> (string \<times> string) list \<Rightarrow> string \<Rightarrow> world \<Rightarrow> string result \<times> world" where
  "downloadSharadarMetrics e pe to_units sub forDate sp500Map figiMap cursor w =
     (if \<not> load_location_ok e then (Panics LogPanic, w)
      else case client_Get e (SharadarDaily cursor (if cursor = [] then forDate else [])) w of
        (resp, w1) \<Rightarrow>
          if 400 \<le> status_of resp then (Value [], w1)
          else (Value (next_cursor_id resp),
                send_metrics e sub
                  (map (\<lambda>r. PvMetric e to_units sp500Map figiMap (row_metric pe r))
                     (datatable_data resp)) w1))"

text \<open>
  \<^verbatim>\<open>downloadAllSharadarMetrics\<close>: the constituents of the S\&P 500 are the tickers of member
  2 of the rows of the first response, and \<^verbatim>\<open>currDate\<close> is member 0 of its last row.
\<close>

definition downloadAllSharadarMetrics ::
  "nat \<Rightarrow> env \<Rightarrow> provider_env \<Rightarrow> (float64 \<Rightarrow> int) \<Rightarrow> Subscription \<Rightarrow> frame
     \<Rightarrow> (exit_kind \<times> frame) option" where
  "downloadAllSharadarMetrics fuel e pe to_units sub fr0 =
     (let fr1 = go_defer SendSummarySuccess
                  (fr0\<lparr>runSummary := new_RunSummary e sub, numObs := 0\<rparr>)
      in if \<not> acquire_ok e then Some (Panicked, fr1)
         else (let fr2 = go_defer ReleaseConn fr1
               in case ActiveAssets pe of
                    None \<Rightarrow> Some (Panicked, fr2)
                  | Some assets0 \<Rightarrow>
                      (case call (client_Get e SharadarSP500) fr2 of
                         (resp, fr3) \<Rightarrow>
                           if 400 \<le> status_of resp then Some (Returned, fr3)
                           else cursor_loop fuel
                                  (downloadSharadarMetrics e pe to_units sub
                                     (if datatable_data resp = [] then []
                                      else row_String (last (datatable_data resp)) 0)
                                     (map (\<lambda>r. row_String r 2) (datatable_data resp))
                                     (figi_map assets0))
                                  [] fr3)))"

definition downloadAllSharadarMetrics_Fetch ::
  "nat \<Rightarrow> env \<Rightarrow> provider_env \<Rightarrow> (float64 \<Rightarrow> int) \<Rightarrow> Subscription \<Rightarrow> fetch_result option" where
  "downloadAllSharadarMetrics_Fetch fuel e pe to_units sub =
     go_call_fuel e (downloadAllSharadarMetrics fuel e pe to_units sub)"

subsection \<open>Sharadar: fundamentals\<close>

text \<open>
  \<^verbatim>\<open>ToPv\<close> gives no record (\<^verbatim>\<open>nil\<close>) when one of the first three dates cannot be read,
  and the observation is sent all the same. Members 6 to 110 of a row are the
  measurements.
\<close>

definition row_day :: "env \<Rightarrow> string \<Rightarrow> wall_time option option" where
  "row_day e s =
     (if s = [] then Some None
      else case parse_date e s of None \<Rightarrow> None | Some t \<Rightarrow> Some (Some (at_new_york t 0 0)))"

definition ToPv ::
  "env \<Rightarrow> provider_env \<Rightarrow> (string \<times> string) list \<Rightarrow> string list \<Rightarrow> Fundamental option result" where
  "ToPv e pe figiMap r =
     (if \<not> load_location_ok e then Panics LogPanic
      else case row_day e (row_String r 2) of
        None \<Rightarrow> Value None
      | Some eventDate \<Rightarrow>
          (case row_day e (row_String r 3) of
             None \<Rightarrow> Value None
           | Some dateKey \<Rightarrow>
               (case row_day e (row_String r 4) of
                  None \<Rightarrow> Value None
                | Some reportPeriod \<Rightarrow>
                    Value (Some
                      \<lparr>Fundamental_Ticker = row_String r 0,
                       Fundamental_CompositeFigi =
                         (case map_of figiMap (row_String r 0) of None \<Rightarrow> [] | Some figi \<Rightarrow> figi),
                       Fundamental_Dimension = row_String r 1,
                       Fundamental_EventDate = (case eventDate of None \<Rightarrow> 0 | Some t \<Rightarrow> t),
                       Fundamental_DateKey = (case dateKey of None \<Rightarrow> 0 | Some t \<Rightarrow> t),
                       Fundamental_ReportPeriod = (case reportPeriod of None \<Rightarrow> 0 | Some t \<Rightarrow> t),
                       Fundamental_LastUpdated =
                         (if row_String r 5 = [] then 0
                          else case parse_date e (row_String r 5) of
                                 None \<Rightarrow> at_new_york (in_new_york e (time_Now pe)) 0 0
                               | Some t \<Rightarrow> at_new_york t 0 0),
                       Fundamental_Measures =
                         map (\<lambda>k. SqlText (row_String r k)) [6 ..< 111]\<rparr>))))"

fun send_fundamentals ::
  "env \<Rightarrow> provider_env \<Rightarrow> Subscription \<Rightarrow> (string \<times> string) list \<Rightarrow> string list list \<Rightarrow> world
     \<Rightarrow> unit result \<times> world" where
  "send_fundamentals e pe sub figiMap [] w = (Value (), w)"
| "send_fundamentals e pe sub figiMap (r # rest) w =
     (case ToPv e pe figiMap r of
        Panics p \<Rightarrow> (Panics p, w)
      | Value pvFundamental \<Rightarrow>
          send_fundamentals e pe sub figiMap rest
            (send_out ((new_Observation e sub w)\<lparr>obs_Fundamental := pvFundamental\<rparr>) w))"

definition downloadSharadarFundamentals ::
  "env \<Rightarrow> provider_env \<Rightarrow> Subscription \<Rightarrow> string \<Rightarrow> world \<Rightarrow> string result \<times> world" where
  "downloadSharadarFundamentals e pe sub cursor w =
     (if \<not> acquire_ok e then (Panics LogPanic, w)
      else case ActiveAssets pe of
        None \<Rightarrow> (Panics LogPanic, w)
      | Some assets0 \<Rightarrow>
          (case client_Get e (SharadarSF1 cursor) w of
             (resp, w1) \<Rightarrow>
               if 400 \<le> status_of resp then (Value [], w1)
               else (case send_fundamentals e pe sub (figi_map assets0) (datatable_data resp) w1 of
                       (Panics p, w2) \<Rightarrow> (Panics p, w2)
                     | (Value u, w2) \<Rightarrow> (Value (next_cursor_id resp), w2))))"

definition downloadAllSharadarFundamentals ::
  "nat \<Rightarrow> env \<Rightarrow> provider_env \<Rightarrow> Subscription \<Rightarrow> frame \<Rightarrow> (exit_kind \<times> frame) option" where
  "downloadAllSharadarFundamentals fuel e pe sub fr0 =
     cursor_loop fuel (downloadSharadarFundamentals e pe sub) []
       (go_defer SendSummary (fr0\<lparr>runSummary := new_RunSummary e sub, numObs := 0\<rparr>))"

definition downloadAllSharadarFundamentals_Fetch ::
  "nat \<Rightarrow> env \<Rightarrow> provider_env \<Rightarrow> Subscription \<Rightarrow> fetch_result option" where
  "downloadAllSharadarFundamentals_Fetch fuel e pe sub =
     go_call_fuel e (downloadAllSharadarFundamentals fuel e pe sub)"

subsection \<open>FRED: economic indicators\<close>

fun fred_observations ::
  "env \<Rightarrow> provider_env \<Rightarrow> Subscription \<Rightarrow> string \<Rightarrow> fredObservation list \<Rightarrow> world \<Rightarrow> world" where
  "fred_observations e pe sub seriesId [] w = w"
| "fred_observations e pe sub seriesId (obs # rest) w =
     (case parse_date e (fo_Date obs) of
        None \<Rightarrow> fred_observations e pe sub seriesId rest w
      | Some eventDate \<Rightarrow>
          if fo_Value obs = ''.'' then fred_observations e pe sub seriesId rest w
          else (case ParseFloat pe (fo_Value obs) of
                  None \<Rightarrow> fred_observations e pe sub seriesId rest w
                | Some val \<Rightarrow>
                    fred_observations e pe sub seriesId rest
                      (send_out ((new_Observation e sub w)
                         \<lparr>obs_EconomicIndicator := Some
                            \<lparr>EconomicIndicator_Series = seriesId,
                             EconomicIndicator_EventDate = at_new_york eventDate 0 0,
                             EconomicIndicator_Value = val\<rparr>\<rparr>) w)))"

definition downloadIndicator ::
  "env \<Rightarrow> provider_env \<Rightarrow> Subscription \<Rightarrow> string \<Rightarrow> world \<Rightarrow> unit result \<times> world" where
  "downloadIndicator e pe sub seriesId w =
     (if \<not> load_location_ok e then (Panics LogPanic, w)
      else case client_Get e (FredObservations seriesId) w of
        (resp, w1) \<Rightarrow>
          if transport_err resp then (Value (), w1)
          else if 300 \<le> StatusCode resp then (Value (), w1)
          else (Value (),
                fred_observations e pe sub seriesId
                  (if StatusCode resp < 200 then [] else Observations resp) w1))"

text \<open>\<^verbatim>\<open>strings.Split(s, ",")\<close> and \<^verbatim>\<open>strings.TrimSpace\<close> are parameters of the fetch.\<close>

fun fred_series ::
  "env \<Rightarrow> provider_env \<Rightarrow> Subscription \<Rightarrow> string list \<Rightarrow> frame \<Rightarrow> exit_kind \<times> frame" where
  "fred_series e pe sub [] fr = (Returned, fr)"
| "fred_series e pe sub (seriesId # rest) fr =
     (case call (downloadIndicator e pe sub seriesId) fr of
        (Panics p, fr1) \<Rightarrow> (Panicked, fr1)
      | (Value u, fr1) \<Rightarrow> fred_series e pe sub rest fr1)"

definition downloadAllFredIndicators ::
  "env \<Rightarrow> provider_env \<Rightarrow> (string \<Rightarrow> string list) \<Rightarrow> (string \<Rightarrow> string) \<Rightarrow> Subscription \<Rightarrow> frame
     \<Rightarrow> exit_kind \<times> frame" where
  "downloadAllFredIndicators e pe Split_comma trim_space sub fr0 =
     fred_series e pe sub (map trim_space (Split_comma (config_get (Config sub) ''seriesIds'')))
       (go_defer SendSummary (fr0\<lparr>runSummary := new_RunSummary e sub, numObs := 0\<rparr>))"

definition downloadAllFredIndicators_Fetch ::
  "env \<Rightarrow> provider_env \<Rightarrow> (string \<Rightarrow> string list) \<Rightarrow> (string \<Rightarrow> string) \<Rightarrow> Subscription
     \<Rightarrow> fetch_result" where
  "downloadAllFredIndicators_Fetch e pe Split_comma trim_space sub =
     go_call e (downloadAllFredIndicators e pe Split_comma trim_space sub)"

subsection \<open>Zacks: screener data\<close>

text \<open>
  \<^verbatim>\<open>downloadZacksData\<close> drives a browser, reads a table of comma-separated values, writes
  a file and uploads it; these steps are the parameters \<open>zacks_env\<close>: the download (data
  and file name, an error, or a panic), the date that \<^verbatim>\<open>zacks_custom_screen_(\d{4}-\d{2}-\d{2})\<close>
  finds in the file name, the records that \<^verbatim>\<open>gocsv\<close> reads, the writing of the parquet
  file, the configured \<^verbatim>\<open>backblaze.application_id\<close>, the upload, and the latest rating of
  an analyst in the database at each of the queries. Of a \<^verbatim>\<open>ZacksRecord\<close> the members that
  the function reads are kept.
\<close>

record ZacksRecord =
  zr_Ticker :: string
  zr_CompositeFigi :: string
  zr_EventDate :: wall_time
  zr_ZacksRank :: int
  zr_ValueScore :: string
  zr_GrowthScore :: string
  zr_MomentumScore :: string
  zr_VgmScore :: string

record zacks_env =
  downloadZacksScreenerData :: "(8 word list \<times> string) outcome"
  FindAllStringSubmatch :: "string \<Rightarrow> string option"
  UnmarshalString :: "8 word list \<Rightarrow> ZacksRecord list option"
  zacksSaveToParquet :: "ZacksRecord list \<Rightarrow> unit outcome"
  backblaze_application_id :: string
  backblaze_Upload :: "unit outcome"
  LatestRating :: "string \<Rightarrow> nat \<Rightarrow> AnalystRating option"

definition loadZacksRatings :: "env \<Rightarrow> zacks_env \<Rightarrow> 8 word list \<Rightarrow> string \<Rightarrow> ZacksRecord list" where
  "loadZacksRatings e ze ratingsData dateStr =
     (case UnmarshalString ze ratingsData of
        None \<Rightarrow> []
      | Some records \<Rightarrow>
          map (\<lambda>r. r\<lparr>zr_Ticker := ReplaceAll (CHR ''.'') (CHR ''/'') (zr_Ticker r),
                      zr_EventDate := (case parse_date e dateStr of None \<Rightarrow> 0 | Some t \<Rightarrow> t)\<rparr>)
            records)"

definition letterGradeToInt :: "string \<Rightarrow> int option" where
  "letterGradeToInt s =
     map_of [(''A'', 1), (''B'', 2), (''C'', 3), (''D'', 4), (''F'', 5)] s"

text \<open>
  One of the five ratings of a record: it is sent when the score is known and differs from
  the latest rating of that analyst, or when there is no latest rating. \<open>k\<close> counts the
  queries for the latest rating.
\<close>

definition zacks_rating ::
  "env \<Rightarrow> zacks_env \<Rightarrow> Subscription \<Rightarrow> ZacksRecord \<Rightarrow> string \<Rightarrow> int option \<Rightarrow> nat \<Rightarrow> frame
     \<Rightarrow> frame" where
  "zacks_rating e ze sub record analyst score k fr =
     (case score of
        None \<Rightarrow> fr
      | Some rating \<Rightarrow>
          if (case LatestRating ze analyst k of
                None \<Rightarrow> True | Some latest \<Rightarrow> AnalystRating_Rating latest \<noteq> rating)
          then fr\<lparr>outside := send_out
                 ((new_Observation e sub (outside fr))
                    \<lparr>obs_Rating := Some
                       \<lparr>AnalystRating_Ticker = zr_Ticker record,
                        AnalystRating_CompositeFigi = zr_CompositeFigi record,
                        AnalystRating_EventDate = zr_EventDate record,
                        AnalystRating_Analyst = analyst, AnalystRating_Rating = rating\<rparr>\<rparr>)
                 (outside fr)\<rparr>
          else fr)"

fun zacks_publish ::
  "env \<Rightarrow> zacks_env \<Rightarrow> Subscription \<Rightarrow> ZacksRecord list \<Rightarrow> nat \<Rightarrow> frame \<Rightarrow> frame" where
  "zacks_publish e ze sub [] k fr = fr"
| "zacks_publish e ze sub (record # rest) k fr =
     zacks_publish e ze sub rest (k + 5)
       (zacks_rating e ze sub record ''zacks-vgm'' (letterGradeToInt (zr_VgmScore record)) (k + 4)
         (zacks_rating e ze sub record ''zacks-momentum''
            (letterGradeToInt (zr_MomentumScore record)) (k + 3)
           (zacks_rating e ze sub record ''zacks-growth''
              (letterGradeToInt (zr_GrowthScore record)) (k + 2)
             (zacks_rating e ze sub record ''zacks-value''
                (letterGradeToInt (zr_ValueScore record)) (k + 1)
               (zacks_rating e ze sub record ''zacks-rank'' (Some (zr_ZacksRank record)) k fr)))))"

definition zacks_enriched :: "(string \<times> string) list \<Rightarrow> ZacksRecord list \<Rightarrow> ZacksRecord list" where
  "zacks_enriched figiMap ratings =
     List.map_filter
       (\<lambda>record. map_option (\<lambda>figi. record\<lparr>zr_CompositeFigi := figi\<rparr>)
                    (map_of figiMap (zr_Ticker record))) ratings"

definition set_Status :: "run_status \<Rightarrow> frame \<Rightarrow> frame" where
  "set_Status s fr = fr\<lparr>runSummary := (runSummary fr)\<lparr>Status := s\<rparr>\<rparr>"

definition downloadZacksData ::
  "env \<Rightarrow> provider_env \<Rightarrow> zacks_env \<Rightarrow> Subscription \<Rightarrow> frame \<Rightarrow> exit_kind \<times> frame" where
  "downloadZacksData e pe ze sub fr0 =
     (let fr1 = go_defer SendSummary (fr0\<lparr>runSummary := new_RunSummary e sub, numObs := 0\<rparr>)
      in case downloadZacksScreenerData ze of
        Panic p \<Rightarrow> (Panicked, fr1)
      | Failed err \<Rightarrow> (Returned, set_Status RunFailed fr1)
      | Done (screenerData, outputFilename) \<Rightarrow>
          (case FindAllStringSubmatch ze outputFilename of
             None \<Rightarrow> (Returned, set_Status RunFailed fr1)
           | Some dateStr \<Rightarrow>
               (let ratings = loadZacksRatings e ze screenerData dateStr
                in if ratings = [] then (Returned, set_Status RunFailed fr1)
                   else if \<not> acquire_ok e then (Panicked, set_Status RunSuccess fr1)
                   else
                     (let fr2 = go_defer ReleaseConn (set_Status RunSuccess fr1)
                      in case ActiveAssets pe of
                        None \<Rightarrow> (Panicked, fr2)
                      | Some assets0 \<Rightarrow>
                          (let enriched = zacks_enriched (figi_map assets0) ratings;
                               dateStr' = filter (\<lambda>c. c \<noteq> CHR ''-'') dateStr
                           in case zacksSaveToParquet ze ratings of
                                Panic p \<Rightarrow> (Panicked, fr2)
                              | saved_or_not \<Rightarrow>
                                  if backblaze_application_id ze \<noteq> [] \<and> length dateStr' < 4
                                  then (Panicked, fr2)
                                  else if backblaze_application_id ze \<noteq> []
                                          \<and> (case backblaze_Upload ze of Panic p \<Rightarrow> True | u \<Rightarrow> False)
                                  then (Panicked, fr2)
                                  else (Returned,
                                        set_Status RunSuccess
                                          (zacks_publish e ze sub enriched 0 fr2)))))))"

definition downloadZacksData_Fetch ::
  "env \<Rightarrow> provider_env \<Rightarrow> zacks_env \<Rightarrow> Subscription \<Rightarrow> fetch_result" where
  "downloadZacksData_Fetch e pe ze sub = go_call e (downloadZacksData e pe ze sub)"

subsection \<open>Polygon: the older Stock Tickers fetch\<close>

text \<open>
  An older version of the Stock Tickers closure. Its fetcher has methods of the same
  names as the later one and other bodies; no claim is about them, and they are the
  parameters \<open>old_fetcher\<close>: each runs in the world, may send on \<^verbatim>\<open>out\<close>, and returns,
  fails or panics. The closure cuts \<^verbatim>\<open>assets\<close> to \<^verbatim>\<open>assets[:1]\<close>, which is within the capacity
  of the slice: with no asset fetched the one element is a \<^verbatim>\<open>nil\<close> pointer, \<open>None\<close> here.
\<close>

record old_fetcher =
  old_assets :: "string \<Rightarrow> world \<Rightarrow> Asset list outcome \<times> world"
  old_filterAssetsByLastUpdated :: "Asset option list \<Rightarrow> world \<Rightarrow> Asset list outcome \<times> world"
  old_assetDetails :: "Asset option list \<Rightarrow> world \<Rightarrow> Asset option list result \<times> world"
  old_delistedAssets :: "Asset option list \<Rightarrow> world \<Rightarrow> Asset option list outcome \<times> world"

definition publishAssets :: "env \<Rightarrow> Subscription \<Rightarrow> Asset option list \<Rightarrow> world \<Rightarrow> world" where
  "publishAssets e sub as w =
     fold (\<lambda>asset w'. send_out ((new_Observation e sub w')\<lparr>AssetObject := asset\<rparr>) w') as w"

definition old_StockTickers_body ::
  "env \<Rightarrow> (int \<Rightarrow> old_fetcher) \<Rightarrow> Subscription \<Rightarrow> frame \<Rightarrow> exit_kind \<times> frame" where
  "old_StockTickers_body e new_api sub fr0 =
     (let fr1 = go_defer SendSummary (fr0\<lparr>runSummary := new_RunSummary e sub\<rparr>)
      in case Atoi (config_get (Config sub) ''rateLimit'') of
        None \<Rightarrow> (Returned, fr1)
      | Some rateLimit \<Rightarrow>
          (let api = new_api (if rateLimit \<le> 0 then 5000 else rateLimit)
           in case call (old_assets api ''ADRC'') fr1 of
                (Failed err, fr2) \<Rightarrow> (Returned, fr2)
              | (Panic p, fr2) \<Rightarrow> (Panicked, fr2)
              | (Done tmpAssets, fr2) \<Rightarrow>
                  (let assets0 = (if tmpAssets = [] then [None] else [Some (hd tmpAssets)])
                   in case call (old_filterAssetsByLastUpdated api assets0) fr2 of
                        (Failed err, fr3) \<Rightarrow> (Returned, fr3)
                      | (Panic p, fr3) \<Rightarrow> (Panicked, fr3)
                      | (Done assetDetail0, fr3) \<Rightarrow>
                          (case call (old_assetDetails api assets0)
                                  (fr3\<lparr>numObs := int (length assetDetail0)\<rparr>) of
                             (Panics p, fr4) \<Rightarrow> (Panicked, fr4)
                           | (Value assetDetails0, fr4) \<Rightarrow>
                               (case call (old_delistedAssets api assets0) fr4 of
                                  (Failed err, fr5) \<Rightarrow> (Returned, fr5)
                                | (Panic p, fr5) \<Rightarrow> (Panicked, fr5)
                                | (Done delistedAssets0, fr5) \<Rightarrow>
                                    (Returned,
                                     fr5\<lparr>outside :=
                                       publishAssets e sub delistedAssets0
                                         (publishAssets e sub assetDetails0 (outside fr5))\<rparr>))))))"

definition old_StockTickers_Fetch ::
  "env \<Rightarrow> (int \<Rightarrow> old_fetcher) \<Rightarrow> Subscription \<Rightarrow> fetch_result" where
  "old_StockTickers_Fetch e new_api sub = go_call e (old_StockTickers_body e new_api sub)"


subsection \<open>Sample runs\<close>

definition not_found :: response where
  "not_found = \<lparr>transport_err = False, StatusCode = 404, Results = Absent, Next = [],
     Holidays = [], Body = [], ContentType = [], Quotes = [], Table = [], NextCursor = [],
     Observations = []\<rparr>"

definition quiet_env :: env where
  "quiet_env = \<lparr>http = (\<lambda>req. not_found), wait_ok = (\<lambda>n. True), load_location_ok = True,
     parse_rfc3339 = (\<lambda>s. None), parse_date = (\<lambda>s. None), in_new_york = (\<lambda>t. t - 5 * Hour),
     acquire_ok = True, query_last_updated = (\<lambda>figi ticker. NoRows), query_active = Some [],
     lookup_figi = (\<lambda>as. []), sortFunc = sort_key LastUpdated, map_order = (\<lambda>m. m),
     start_now = 0, end_now = 0, publish_now = (\<lambda>n. 0), since_now = (\<lambda>k. 0),
     update_now = (\<lambda>k. 0)\<rparr>"

definition run_time :: time where
  "run_time = 63847267200000000000"

definition asset_a :: Asset where
  "asset_a = zero_Asset\<lparr>Ticker := ''AAA'', CompositeFigi := ''BBG00000000A'', AssetType := ''CS'',
     Active := True, LastUpdated := run_time - 24 * Hour\<rparr>"

definition asset_b :: Asset where
  "asset_b = zero_Asset\<lparr>Ticker := ''BBB'', CompositeFigi := ''BBG00000000B'', AssetType := ''CS'',
     Active := True, LastUpdated := run_time - 48 * Hour\<rparr>"

text \<open>
  The row of \<open>asset_a\<close> was last updated two days before the run and the provider
  changed the asset one day before it; for \<open>asset_b\<close> it is the other way round.
\<close>

definition stale_env :: env where
  "stale_env = quiet_env\<lparr>query_last_updated :=
     (\<lambda>figi ticker. if ticker = ''AAA'' then Row (Some (run_time - 48 * Hour))
                     else if ticker = ''BBB'' then Row (Some (run_time - 24 * Hour))
                     else NoRows)\<rparr>"

definition polygon_subscription :: Subscription where
  "polygon_subscription = \<lparr>sub_ID = ''7b9d3c11-0000-4000-8000-000000000002'', sub_Name = ''tickers'',
     Config = [(''apiKey'', ''secret''), (''rateLimit'', ''0'')],
     DataTables = [''polygon_stock_tickers_asset_description_7b9d3''],
     DataTypes = [''asset-description''],
     DataTablesMap = [(''asset-description'', ''polygon_stock_tickers_asset_description_7b9d3'')]\<rparr>"

definition sample_api :: polygonAssetFetcher where
  "sample_api = \<lparr>api_subscription = polygon_subscription, api_limiter = configured_limiter 0\<rparr>"

definition bad_config_subscription :: Subscription where
  "bad_config_subscription = polygon_subscription\<lparr>Config := [(''apiKey'', ''secret'')]\<rparr>"

definition cancelled_env :: env where
  "cancelled_env = quiet_env\<lparr>wait_ok := (\<lambda>n. False)\<rparr>"





definition stock_a :: polygonStock where
  "stock_a = \<lparr>ps_Ticker = ''AAA'', ps_Name = ''Triple A'', ps_Description = [],
     ps_CompositeFIGI = ''BBG00000000A'', ps_ShareClassFIGI = [], ps_PrimaryExchange = ''XNYS'',
     ps_Type = ''CS'', ps_Active = True, ps_CIK = [], ps_SIC = [], ps_CorporateURL = [],
     ps_ListDate = [], ps_DelistDate = [], ps_LogoURL = [], ps_IconURL = [], ps_City = [],
     ps_State = [], ps_LastUpdated = ''2024-03-01T00:00:00Z''\<rparr>"

definition page1 :: response where
  "page1 = not_found\<lparr>StatusCode := 200, Results := Tickers [stock_a], Next := ''cursor-2''\<rparr>"

definition page2 :: response where
  "page2 = not_found\<lparr>StatusCode := 200, Results := Tickers []\<rparr>"

text \<open>Two pages of active common stocks, and an error page for the next asset type.\<close>

definition paged_env :: env where
  "paged_env = quiet_env\<lparr>http :=
     (\<lambda>req. if req = ListTickers ''true'' ''CS'' then page1
            else if req = FollowCursor ''cursor-2'' then page2 else not_found)\<rparr>"

subsection \<open>Reconciliation: what the phases of delistedAssets decide\<close>






text \<open>
  A run at \<open>run_time\<close>: one asset last updated fifteen days ago, one exactly fourteen days
  ago, and one that the provider lists as delisted.
\<close>

definition asset_old :: Asset where
  "asset_old = zero_Asset\<lparr>Ticker := ''OLD'', CompositeFigi := ''BBG000000001'', AssetType := ''CS'',
     Active := True, LastUpdated := run_time - 15 * 24 * Hour\<rparr>"


definition asset_gone :: Asset where
  "asset_gone = zero_Asset\<lparr>Ticker := ''GON'', CompositeFigi := ''BBG000000003'', AssetType := ''CS'',
     Active := True, LastUpdated := run_time - 24 * Hour\<rparr>"







section \<open>Verification\<close>

subsection \<open>Upserts\<close>





















text \<open>
  C10. Once \<^verbatim>\<open>Begin\<close> has succeeded, \<^verbatim>\<open>Eod.SaveDB\<close> returns \<^verbatim>\<open>nil\<close>: the deferred commit
  is always attempted, a failed \<^verbatim>\<open>Exec\<close> leaves the table as it was and is only logged, and
  the returned value is the same whether \<^verbatim>\<open>Exec\<close> failed or not.
\<close>

theorem Eod_SaveDB_returns_nil:
  assumes "\<not> begin_err f"
  shows "fst (Eod_SaveDB f eod t) = None
    \<and> Commit \<in> set (snd (snd (Eod_SaveDB f eod t)))
    \<and> (exec_err f \<longrightarrow>
          fst (snd (Eod_SaveDB f eod t)) = t
        \<and> LogError ''error saving EOD quote to database'' \<in> set (snd (snd (Eod_SaveDB f eod t))))
    \<and> fst (Eod_SaveDB (f\<lparr>exec_err := True\<rparr>) eod t) = fst (Eod_SaveDB (f\<lparr>exec_err := False\<rparr>) eod t)"
  using assms by (simp add: Eod_SaveDB_def tx_Exec_def tx_Commit_def split: option.splits prod.splits)

theorem Eod_SaveDB_returns_nil_witness:
  "\<not> begin_err (no_faults\<lparr>exec_err := True\<rparr>)
   \<and> Eod_SaveDB (no_faults\<lparr>exec_err := True\<rparr>) eod_fb []
       = (None, [], [Begin, Exec (new_row Eod_stmt (Eod_params eod_fb)),
                     LogError ''error saving EOD quote to database'', Commit,
                     LogError ''error committing eod transaction to database''])"
proof -
  have h: "\<not> begin_err (no_faults\<lparr>exec_err := True\<rparr>)" by (simp add: no_faults_def)
  from Eod_SaveDB_returns_nil [OF h, of eod_fb "[]"]
  have "fst (Eod_SaveDB (no_faults\<lparr>exec_err := True\<rparr>) eod_fb []) = None" by blast
  moreover have "snd (Eod_SaveDB (no_faults\<lparr>exec_err := True\<rparr>) eod_fb [])
      = ([], [Begin, Exec (new_row Eod_stmt (Eod_params eod_fb)),
                     LogError ''error saving EOD quote to database'', Commit,
                     LogError ''error committing eod transaction to database''])"
    by (simp add: Eod_SaveDB_def tx_Exec_def tx_Commit_def no_faults_def)
  ultimately show ?thesis using h by (simp add: prod_eq_iff)
qed

subsection \<open>Totals of the library\<close>

lemma QueryRow_total_records:
  "QueryRow (''SELECT coalesce(sum(total_records), 0)'' @ where_active) rows
     = Inr (coalesce (sql_sum (map row_total_records (active_rows rows))) 0)"
  by (simp add: QueryRow_def)

text \<open>
  C9. \<^verbatim>\<open>TotalSecurities\<close> and \<^verbatim>\<open>TotalRecords\<close> send the same query, so they return the same
  pair on every state of the database, and the result of \<^verbatim>\<open>TotalSecurities\<close> is the sum of
  \<^verbatim>\<open>total_records\<close> over the active subscriptions whatever \<^verbatim>\<open>total_securities\<close> holds.
\<close>

theorem TotalSecurities_is_TotalRecords:
  "TotalSecurities acquired rows = TotalRecords acquired rows
   \<and> TotalSecurities True rows
       = (coalesce (sql_sum (map row_total_records (active_rows rows))) 0, None)
   \<and> TotalSecurities acquired (map (\<lambda>r. r\<lparr>row_total_securities := g r\<rparr>) rows)
       = TotalSecurities acquired rows"
proof -
  have eq: "\<And>ok rs. TotalSecurities ok rs =
      (if \<not> ok then (0, Some ErrAcquire)
       else (coalesce (sql_sum (map row_total_records (active_rows rs))) 0, None))"
    unfolding TotalSecurities_def QueryRow_total_records by (simp add: scan_count_def)
  have eq': "\<And>ok rs. TotalRecords ok rs =
      (if \<not> ok then (0, Some ErrAcquire)
       else (coalesce (sql_sum (map row_total_records (active_rows rs))) 0, None))"
    unfolding TotalRecords_def QueryRow_total_records by (simp add: scan_count_def)
  have "active_rows (map (\<lambda>r. r\<lparr>row_total_securities := g r\<rparr>) rows)
      = map (\<lambda>r. r\<lparr>row_total_securities := g r\<rparr>) (active_rows rows)"
    by (induction rows) (simp_all add: active_rows_def)
  then have "map row_total_records (active_rows (map (\<lambda>r. r\<lparr>row_total_securities := g r\<rparr>) rows))
      = map row_total_records (active_rows rows)"
    by (simp add: comp_def)
  then show ?thesis
    by (simp add: eq eq')
qed

theorem TotalSecurities_is_TotalRecords_witness:
  "TotalSecurities True sample_subscriptions = (120, None)
   \<and> TotalRecords True sample_subscriptions = (120, None)"
proof -
  note th = TotalSecurities_is_TotalRecords [of True sample_subscriptions "\<lambda>r. None"]
  have a: "TotalSecurities True sample_subscriptions = TotalRecords True sample_subscriptions"
    using th by blast
  have b: "TotalSecurities True sample_subscriptions
      = (coalesce (sql_sum (map row_total_records (active_rows sample_subscriptions))) 0, None)"
    using th by blast
  have c: "coalesce (sql_sum (map row_total_records (active_rows sample_subscriptions))) 0 = 120"
    by (simp add: sample_subscriptions_def active_rows_def sql_sum_def coalesce_def)
  show ?thesis using a b c by simp
qed


subsection \<open>Partitions\<close>

lemma chain_append: "chain a (xs @ ys) c \<longleftrightarrow> (\<exists>b. chain a xs b \<and> chain b ys c)"
  by (induction xs arbitrary: a) auto

lemma chain_le: "chain a rs b \<Longrightarrow> a \<le> b"
  by (induction rs arbitrary: a) fastforce+

lemma chain_lower: "chain a rs b \<Longrightarrow> r \<in> set rs \<Longrightarrow> a \<le> fst r"
proof (induction rs arbitrary: a)
  case Nil
  then show ?case by simp
next
  case (Cons x xs)
  then show ?case by (fastforce dest: chain_le)
qed

lemma chain_cover:
  "chain a rs b \<Longrightarrow> a \<le> y \<Longrightarrow> y < b \<Longrightarrow> \<exists>!r. r \<in> set rs \<and> fst r \<le> y \<and> y < snd r"
proof (induction rs arbitrary: a)
  case Nil
  then show ?case by simp
next
  case (Cons x xs)
  from Cons.prems have x: "fst x = a" "fst x < snd x" and rest: "chain (snd x) xs b" by auto
  show ?case
  proof (cases "y < snd x")
    case True
    have "\<And>r. r \<in> set xs \<Longrightarrow> \<not> fst r \<le> y"
      using chain_lower [OF rest] True by fastforce
    with True x Cons.prems(2) show ?thesis by auto
  next
    case False
    then have "\<exists>!r. r \<in> set xs \<and> fst r \<le> y \<and> y < snd r"
      using Cons.IH [OF rest] Cons.prems(3) by simp
    with False show ?thesis by auto
  qed
qed

lemma managePartitions_loop_chain:
  "chain a (map bounds dates) ii \<Longrightarrow>
   \<exists>b. chain a (map bounds (managePartitions_loop ii yr dates)) b \<and> ii \<le> b \<and> yr \<le> max ii b"
proof (induction ii yr dates rule: managePartitions_loop.induct)
  case (1 ii yr dates)
  show ?case
  proof (cases "ii < yr")
    case True
    have "bounds \<lparr>Start = ii, End = ii + 5\<rparr> = (ii, ii + 5)" by (simp add: bounds_def)
    then have "chain a (map bounds (dates @ [\<lparr>Start = ii, End = ii + 5\<rparr>])) (ii + 5)"
      using "1.prems" by (simp add: chain_append)
    from "1.IH" [OF True this] obtain b where
      "chain a (map bounds (managePartitions_loop (ii + 5) yr (dates @ [\<lparr>Start = ii, End = ii + 5\<rparr>]))) b"
      "ii + 5 \<le> b" "yr \<le> max (ii + 5) b" by blast
    with True show ?thesis by (subst managePartitions_loop.simps) auto
  next
    case False
    with "1.prems" show ?thesis by (subst managePartitions_loop.simps) auto
  qed
qed

lemma legacy_chain: "chain 1900 (map bounds legacy_dates) 2015"
  by (simp add: legacy_dates_def bounds_def)

lemma managePartitions_dates_chain:
  "\<exists>b. chain 1900 (map bounds (managePartitions_dates y)) b \<and> 2015 \<le> b \<and> y < b"
proof -
  from managePartitions_loop_chain [OF legacy_chain, of "y + 1"]
  obtain b where "chain 1900 (map bounds (managePartitions_loop 2015 (y + 1) legacy_dates)) b"
    "2015 \<le> b" "y + 1 \<le> max 2015 b" by blast
  then show ?thesis unfolding managePartitions_dates_def by (intro exI [of _ b]) auto
qed

lemma in_range_year:
  "valid_date d \<Longrightarrow> in_range r d \<longleftrightarrow> fst r \<le> year d \<and> year d < snd r"
  by (auto simp: in_range_def valid_date_def date_less_def january_first_def)

lemma create_partitions_Done:
  "create_partitions fails parent dates tx = Done tx' \<Longrightarrow> tx' = tx @ map (partition_stmt parent) dates"
proof (induction dates arbitrary: tx)
  case Nil
  then show ?case by simp
next
  case (Cons dt dates)
  then have "create_partitions fails parent dates (tx @ [partition_stmt parent dt]) = Done tx'"
    by (simp split: if_splits)
  from Cons.IH [OF this] show ?case by simp
qed

lemma ranges_of_append: "ranges_of p (xs @ ys) = ranges_of p xs @ ranges_of p ys"
  by (simp add: ranges_of_def)

lemma ranges_of_stmts:
  "ranges_of p (map (partition_stmt q) dates) = (if q = p then map bounds dates else [])"
  by (induction dates) (auto simp: ranges_of_def partition_stmt_def bounds_def)

lemma managePartitions_types_ranges:
  "managePartitions_types registry fails y tables idx types tx = Done tx' \<Longrightarrow>
   set (ranges_of parent tx') = set (ranges_of parent tx) \<union>
     (if \<exists>k < length types. tables ! (idx + k) = parent
          \<and> (\<exists>dt. registry (types ! k) = Some dt \<and> IsPartitioned dt)
      then set (map bounds (managePartitions_dates y)) else {})"
proof (induction types arbitrary: idx tx)
  case Nil
  then show ?case by simp
next
  case (Cons n rest)
  from Cons.prems obtain dt where dt: "registry n = Some dt" and inb: "idx < length tables"
    by (auto split: if_splits option.splits)
  let ?P = "\<lambda>types idx. \<exists>k < length types. tables ! (idx + k) = parent
          \<and> (\<exists>dt. registry (types ! k) = Some dt \<and> IsPartitioned dt)"
  have split: "?P (n # rest) idx \<longleftrightarrow> (tables ! idx = parent \<and> IsPartitioned dt) \<or> ?P rest (Suc idx)"
  proof
    assume "?P (n # rest) idx"
    then obtain k where k: "k < length (n # rest)" "tables ! (idx + k) = parent"
      "\<exists>dt. registry ((n # rest) ! k) = Some dt \<and> IsPartitioned dt" by blast
    show "(tables ! idx = parent \<and> IsPartitioned dt) \<or> ?P rest (Suc idx)"
    proof (cases k)
      case 0
      with k dt show ?thesis by simp
    next
      case (Suc k')
      with k have "k' < length rest \<and> tables ! (Suc idx + k') = parent
          \<and> (\<exists>dt. registry (rest ! k') = Some dt \<and> IsPartitioned dt)" by simp
      then show ?thesis by blast
    qed
  next
    assume "(tables ! idx = parent \<and> IsPartitioned dt) \<or> ?P rest (Suc idx)"
    then show "?P (n # rest) idx"
    proof
      assume "tables ! idx = parent \<and> IsPartitioned dt"
      with dt show ?thesis by (intro exI [of _ 0]) simp
    next
      assume "?P rest (Suc idx)"
      then obtain k where "k < length rest" "tables ! (Suc idx + k) = parent"
        "\<exists>dt. registry (rest ! k) = Some dt \<and> IsPartitioned dt" by blast
      then show ?thesis by (intro exI [of _ "Suc k"]) simp
    qed
  qed
  show ?case
  proof (cases "IsPartitioned dt")
    case False
    with Cons.prems dt inb have "managePartitions_types registry fails y tables (Suc idx) rest tx = Done tx'"
      by simp
    from Cons.IH [OF this] False show ?thesis unfolding split by simp
  next
    case True
    with Cons.prems dt inb obtain tx1 where
      c: "create_partitions fails (tables ! idx) (managePartitions_dates y) tx = Done tx1"
      and r: "managePartitions_types registry fails y tables (Suc idx) rest tx1 = Done tx'"
      by (auto split: outcome.splits)
    from create_partitions_Done [OF c]
    have "set (ranges_of parent tx1) = set (ranges_of parent tx) \<union>
        (if tables ! idx = parent then set (map bounds (managePartitions_dates y)) else {})"
      by (simp add: ranges_of_append ranges_of_stmts)
    with Cons.IH [OF r] True show ?thesis unfolding split by auto
  qed
qed

text \<open>
  C2. When \<^verbatim>\<open>ManagePartitions\<close> completes, then for every data type of the subscription
  that is flagged partitioned, every event date from 1900-01-01 up to today lies in exactly
  one of the ranges created for its table.
\<close>

theorem partitions_cover_every_date:
  assumes completes: "ManagePartitions registry acquired f fails (year today) subscription = Done tx"
    and idx: "idx < length (DataTypes subscription)"
    and dt: "registry (DataTypes subscription ! idx) = Some dataType" "IsPartitioned dataType"
    and d: "valid_date d" "\<not> date_less d (january_first 1900)" "\<not> date_less today d"
  shows "\<exists>!r. r \<in> set (ranges_of (DataTables subscription ! idx) tx) \<and> in_range r d"
proof -
  have run: "managePartitionsWithTransaction registry fails (year today) subscription [] = Done tx"
    using completes by (auto simp: ManagePartitions_def split: if_splits outcome.splits)
  have "set (ranges_of (DataTables subscription ! idx) tx)
      = set (map bounds (managePartitions_dates (year today)))"
    using managePartitions_types_ranges [OF run [unfolded managePartitionsWithTransaction_def],
        of "DataTables subscription ! idx"] idx dt
    by (auto simp: ranges_of_def)
  moreover obtain b where b: "chain 1900 (map bounds (managePartitions_dates (year today))) b"
    "year today < b" using managePartitions_dates_chain by blast
  moreover have "1900 \<le> year d" "year d \<le> year today"
    using d by (auto simp: date_less_def january_first_def valid_date_def)
  ultimately have "\<exists>!r. r \<in> set (ranges_of (DataTables subscription ! idx) tx)
      \<and> fst r \<le> year d \<and> year d < snd r"
    using chain_cover [OF b(1), of "year d"] by simp
  then show ?thesis using d(1) by (simp add: in_range_year)
qed

lemma managePartitions_dates_2024:
  "managePartitions_dates 2024 = legacy_dates @ [\<lparr>Start = 2015, End = 2020\<rparr>, \<lparr>Start = 2020, End = 2025\<rparr>]"
  by (simp add: managePartitions_dates_def managePartitions_loop.simps)

lemma PartitionTables_dates_2024:
  "PartitionTables_dates 2024 = legacy_dates @
     [\<lparr>Start = 2015, End = 2016\<rparr>, \<lparr>Start = 2016, End = 2017\<rparr>, \<lparr>Start = 2017, End = 2018\<rparr>,
      \<lparr>Start = 2018, End = 2019\<rparr>, \<lparr>Start = 2019, End = 2020\<rparr>, \<lparr>Start = 2020, End = 2021\<rparr>,
      \<lparr>Start = 2021, End = 2022\<rparr>, \<lparr>Start = 2022, End = 2023\<rparr>, \<lparr>Start = 2023, End = 2024\<rparr>,
      \<lparr>Start = 2024, End = 2025\<rparr>]"
  by (simp add: PartitionTables_dates_def PartitionTables_loop.simps)

lemma eod_registered: "data_DataTypes ''eod'' = Some \<lparr>dt_Name = ''eod'', dt_Version = 0, IsPartitioned = True\<rparr>"
  by (simp add: data_DataTypes_def)

lemma PartitionTables_2024:
  "PartitionTables data_DataTypes 2024 eod_subscription = Done
  [''tiingo_eod_eod_4f1c2_1900_2000'', ''tiingo_eod_eod_4f1c2_2000_2005'',
    ''tiingo_eod_eod_4f1c2_2005_2010'', ''tiingo_eod_eod_4f1c2_2010_2015'',
    ''tiingo_eod_eod_4f1c2_2015_2016'', ''tiingo_eod_eod_4f1c2_2016_2017'',
    ''tiingo_eod_eod_4f1c2_2017_2018'', ''tiingo_eod_eod_4f1c2_2018_2019'',
    ''tiingo_eod_eod_4f1c2_2019_2020'', ''tiingo_eod_eod_4f1c2_2020_2021'',
    ''tiingo_eod_eod_4f1c2_2021_2022'', ''tiingo_eod_eod_4f1c2_2022_2023'',
    ''tiingo_eod_eod_4f1c2_2023_2024'', ''tiingo_eod_eod_4f1c2_2024_2025'']"
  by (simp add: PartitionTables_def eod_subscription_def eod_registered PartitionTables_dates_2024
      legacy_dates_def partition_name_def itoa_def)

lemma managePartitions_2024:
  "managePartitionsWithTransaction data_DataTypes (\<lambda>p. False) 2024 eod_subscription [] = Done created_2024"
  by (simp add: created_2024_def managePartitionsWithTransaction_def eod_subscription_def eod_registered
      managePartitions_dates_2024 legacy_dates_def)

lemma created_names_2024:
  "map cp_table created_2024
   = [''tiingo_eod_eod_4f1c2_1900_2000'', ''tiingo_eod_eod_4f1c2_2000_2005'',
      ''tiingo_eod_eod_4f1c2_2005_2010'', ''tiingo_eod_eod_4f1c2_2010_2015'',
      ''tiingo_eod_eod_4f1c2_2015_2020'', ''tiingo_eod_eod_4f1c2_2020_2025'']"
  by (simp add: created_2024_def partition_stmt_def partition_name_def itoa_def)

theorem partitions_cover_every_date_witness:
  "ManagePartitions data_DataTypes True no_faults (\<lambda>p. False) 2024 eod_subscription = Done created_2024
   \<and> (\<exists>!r. r \<in> set (ranges_of ''tiingo_eod_eod_4f1c2'' created_2024)
            \<and> in_range r \<lparr>year = 2019, month = 3, day = 1\<rparr>)"
proof -
  let ?today = "\<lparr>year = 2024, month = 6, day = 15\<rparr>"
  let ?d = "\<lparr>year = 2019, month = 3, day = 1\<rparr>"
  have run: "ManagePartitions data_DataTypes True no_faults (\<lambda>p. False) (year ?today) eod_subscription
      = Done created_2024"
    by (simp add: ManagePartitions_def no_faults_def managePartitions_2024)
  have idx: "0 < length (DataTypes eod_subscription)" by (simp add: eod_subscription_def)
  have dt: "data_DataTypes (DataTypes eod_subscription ! 0)
      = Some \<lparr>dt_Name = ''eod'', dt_Version = 0, IsPartitioned = True\<rparr>"
    "IsPartitioned \<lparr>dt_Name = ''eod'', dt_Version = 0, IsPartitioned = True\<rparr>"
    by (simp_all add: eod_subscription_def eod_registered)
  have d: "valid_date ?d" "\<not> date_less ?d (january_first 1900)" "\<not> date_less ?today ?d"
    by (simp_all add: valid_date_def date_less_def january_first_def)
  have "DataTables eod_subscription ! 0 = ''tiingo_eod_eod_4f1c2''"
    by (simp add: eod_subscription_def)
  with partitions_cover_every_date [OF run idx dt d] run show ?thesis by simp
qed

text \<open>
  C5 fails on the code. For a subscription with the partitioned data type \<^verbatim>\<open>eod\<close>, in 2024,
  \<^verbatim>\<open>managePartitionsWithTransaction\<close> creates five-year tables from 2015 on, while
  \<^verbatim>\<open>PartitionTables\<close> lists one-year names: the two sets of names differ, and the created
  table \<^verbatim>\<open>..._2015_2020\<close> is not among the names returned for deletion.
\<close>

theorem partition_names_differ:
  "managePartitionsWithTransaction data_DataTypes (\<lambda>p. False) 2024 eod_subscription [] = Done created_2024
   \<and> map cp_table created_2024
       = [''tiingo_eod_eod_4f1c2_1900_2000'', ''tiingo_eod_eod_4f1c2_2000_2005'',
          ''tiingo_eod_eod_4f1c2_2005_2010'', ''tiingo_eod_eod_4f1c2_2010_2015'',
          ''tiingo_eod_eod_4f1c2_2015_2020'', ''tiingo_eod_eod_4f1c2_2020_2025'']
   \<and> PartitionTables data_DataTypes 2024 eod_subscription = Done
        [''tiingo_eod_eod_4f1c2_1900_2000'', ''tiingo_eod_eod_4f1c2_2000_2005'',
         ''tiingo_eod_eod_4f1c2_2005_2010'', ''tiingo_eod_eod_4f1c2_2010_2015'',
         ''tiingo_eod_eod_4f1c2_2015_2016'', ''tiingo_eod_eod_4f1c2_2016_2017'',
         ''tiingo_eod_eod_4f1c2_2017_2018'', ''tiingo_eod_eod_4f1c2_2018_2019'',
         ''tiingo_eod_eod_4f1c2_2019_2020'', ''tiingo_eod_eod_4f1c2_2020_2021'',
         ''tiingo_eod_eod_4f1c2_2021_2022'', ''tiingo_eod_eod_4f1c2_2022_2023'',
         ''tiingo_eod_eod_4f1c2_2023_2024'', ''tiingo_eod_eod_4f1c2_2024_2025'']
   \<and> ''tiingo_eod_eod_4f1c2_2015_2020'' \<notin> set
        [''tiingo_eod_eod_4f1c2_1900_2000'', ''tiingo_eod_eod_4f1c2_2000_2005'',
         ''tiingo_eod_eod_4f1c2_2005_2010'', ''tiingo_eod_eod_4f1c2_2010_2015'',
         ''tiingo_eod_eod_4f1c2_2015_2016'', ''tiingo_eod_eod_4f1c2_2016_2017'',
         ''tiingo_eod_eod_4f1c2_2017_2018'', ''tiingo_eod_eod_4f1c2_2018_2019'',
         ''tiingo_eod_eod_4f1c2_2019_2020'', ''tiingo_eod_eod_4f1c2_2020_2021'',
         ''tiingo_eod_eod_4f1c2_2021_2022'', ''tiingo_eod_eod_4f1c2_2022_2023'',
         ''tiingo_eod_eod_4f1c2_2023_2024'', ''tiingo_eod_eod_4f1c2_2024_2025'']"
proof -
  have "''tiingo_eod_eod_4f1c2_2015_2020'' \<notin> set
        [''tiingo_eod_eod_4f1c2_1900_2000'', ''tiingo_eod_eod_4f1c2_2000_2005'',
         ''tiingo_eod_eod_4f1c2_2005_2010'', ''tiingo_eod_eod_4f1c2_2010_2015'',
         ''tiingo_eod_eod_4f1c2_2015_2016'', ''tiingo_eod_eod_4f1c2_2016_2017'',
         ''tiingo_eod_eod_4f1c2_2017_2018'', ''tiingo_eod_eod_4f1c2_2018_2019'',
         ''tiingo_eod_eod_4f1c2_2019_2020'', ''tiingo_eod_eod_4f1c2_2020_2021'',
         ''tiingo_eod_eod_4f1c2_2021_2022'', ''tiingo_eod_eod_4f1c2_2022_2023'',
         ''tiingo_eod_eod_4f1c2_2023_2024'', ''tiingo_eod_eod_4f1c2_2024_2025'']"
    by simp
  then show ?thesis
    using managePartitions_2024 created_names_2024 PartitionTables_2024 by blast
qed


subsection \<open>Polygon: the staleness filter\<close>

text \<open>
  What the loop of \<^verbatim>\<open>filterAssetsByLastUpdated\<close> collects when no query fails: the assets
  without a row, and the assets whose fetched \<^verbatim>\<open>LastUpdated\<close> is before the row's.
\<close>

lemma filterAssets_loop_Done:
  assumes "\<forall>a \<in> set fetched. query_last_updated e (CompositeFigi a) (Ticker a) \<noteq> ScanError"
  shows "filterAssets_loop e fetched d u = Done
     (d @ filter (\<lambda>a. query_last_updated e (CompositeFigi a) (Ticker a) = NoRows) fetched,
      u @ filter (\<lambda>a. \<exists>v. query_last_updated e (CompositeFigi a) (Ticker a) = Row v
                        \<and> LastUpdated a < coalesce v 0) fetched)"
  using assms by (induction fetched arbitrary: d u) (auto split: scan.splits)

text \<open>
  C3 fails on the code. The database row of \<open>asset_a\<close> predates the fetched asset, and the
  row of \<open>asset_b\<close> is later than the fetched asset: the function selects \<open>asset_b\<close> and
  leaves \<open>asset_a\<close> out, the reverse of the claim and of the caller's comment (remove any
  assets that haven't been updated since our last look).
\<close>

theorem filter_selects_newer_in_database:
  "filterAssetsByLastUpdated stale_env [asset_a, asset_b] = Done [asset_b]
   \<and> query_last_updated stale_env (CompositeFigi asset_a) (Ticker asset_a)
       = Row (Some (run_time - 48 * Hour))
   \<and> LastUpdated asset_a = run_time - 24 * Hour
   \<and> query_last_updated stale_env (CompositeFigi asset_b) (Ticker asset_b)
       = Row (Some (run_time - 24 * Hour))
   \<and> LastUpdated asset_b = run_time - 48 * Hour"
  by (simp add: filterAssetsByLastUpdated_def stale_env_def quiet_env_def asset_a_def asset_b_def
      zero_Asset_def coalesce_def Hour_def)

subsection \<open>Polygon: records without a business key\<close>



subsection \<open>The run summary\<close>

lemma Atoi_zero: "Atoi ''0'' = Some 0"
  by (simp add: Atoi_def is_digit_def digits_value_def)

lemma Atoi_empty: "Atoi [] = None"
  by (simp add: Atoi_def)


lemma fold_run_deferred:
  "length (exitNotification (fold (run_deferred e) ds fr))
     = length (exitNotification fr) + summary_sends ds
   \<and> outside (fold (run_deferred e) ds fr) = outside fr"
proof (induction ds arbitrary: fr)
  case Nil
  then show ?case by (simp add: summary_sends_def)
next
  case (Cons d ds)
  show ?case
    using Cons.IH [of "run_deferred e d fr"]
    by (cases d) (simp_all add: summary_sends_def send_summary_def Let_def)
qed


lemma go_call_final: "final (go_call e body) = outside (snd (body frame0))"
  by (simp add: final_def go_call_def go_exit_def fold_run_deferred)

lemma go_call_exit: "exit (go_call e body) = fst (body frame0)"
  by (simp add: exit_def go_call_def go_exit_def)




subsection \<open>Polygon: requests and the limiter\<close>

lemma has_token_append: "has_token l tok (xs @ ys) = has_token l (has_token l tok xs) ys"
proof (induction xs arbitrary: tok)
  case Nil
  then show ?case by simp
next
  case (Cons ev xs)
  then show ?case by (cases ev) simp_all
qed

lemma throttled_from_append:
  "throttled_from l tok (xs @ ys) \<longleftrightarrow>
     throttled_from l tok xs \<and> throttled_from l (has_token l tok xs) ys"
proof (induction xs arbitrary: tok)
  case Nil
  then show ?case by simp
next
  case (Cons ev xs)
  then show ?case by (cases ev) auto
qed

lemma limiter_Wait_trace:
  "limiter_Wait e l w = (b, w1) \<Longrightarrow> trace w1 = trace w @ [if b then Wait l else WaitFailed l]"
  by (auto simp: limiter_Wait_def split: if_splits)

lemma client_Get_trace: "client_Get e req w = (resp, w1) \<Longrightarrow> trace w1 = trace w @ [Get req]"
  by (auto simp: client_Get_def)

lemma wait_failed_throttled:
  "throttled l (trace w) \<Longrightarrow> limiter_Wait e l w = (False, w1) \<Longrightarrow> throttled l (trace w1)"
  by (drule limiter_Wait_trace) (simp add: throttled_def throttled_from_append)

lemma wait_get_throttled:
  "throttled l (trace w) \<Longrightarrow> limiter_Wait e l w = (True, w1) \<Longrightarrow> client_Get e req w1 = (resp, w2)
     \<Longrightarrow> throttled l (trace w2)"
  by (drule limiter_Wait_trace, drule client_Get_trace) (simp add: throttled_def throttled_from_append)

lemma publish_trace: "trace (snd (publish e api asset w)) = trace w"
  by (simp add: publish_def send_out_def new_Observation_def Let_def)

lemma assets_pages_throttled:
  "throttled (api_limiter api) (trace w) \<Longrightarrow>
   throttled (api_limiter api) (trace (snd (assets_pages e api n resp rc acc w)))"
proof (induction n arbitrary: resp rc acc w)
  case 0
  then show ?case by simp
next
  case (Suc n)
  show ?case
    using Suc.prems
    by (auto simp: Let_def split: results.splits prod.splits bool.splits
        intro!: Suc.IH elim: wait_failed_throttled wait_get_throttled)
qed

lemma assets_throttled:
  "throttled (api_limiter api) (trace w) \<Longrightarrow>
   throttled (api_limiter api) (trace (snd (assets e api assetType w)))"
  by (auto simp: assets_def split: prod.splits bool.splits
      intro!: assets_pages_throttled elim: wait_failed_throttled wait_get_throttled)

lemma assets_types_throttled:
  "throttled (api_limiter api) (trace w) \<Longrightarrow>
   throttled (api_limiter api) (trace (snd (assets_types e api types acc w)))"
proof (induction types arbitrary: acc w)
  case Nil
  then show ?case by simp
next
  case (Cons assetType rest)
  from Cons.prems have "throttled (api_limiter api) (trace (snd (assets e api assetType w)))"
    by (rule assets_throttled)
  then show ?case
    by (auto split: prod.splits outcome.splits intro!: Cons.IH)
qed

lemma fetch_image_throttled:
  "throttled (api_limiter api) (trace w) \<Longrightarrow>
   throttled (api_limiter api) (trace (snd (fetch_image e api url w)))"
  by (auto simp: fetch_image_def split: prod.splits bool.splits
      elim: wait_failed_throttled wait_get_throttled)

lemma assetDetail_throttled:
  assumes t: "throttled (api_limiter api) (trace w)"
  shows "throttled (api_limiter api) (trace (snd (assetDetail e api asset w)))"
proof -
  obtain b w1 where W: "limiter_Wait e (api_limiter api) w = (b, w1)"
    by (cases "limiter_Wait e (api_limiter api) w")
  show ?thesis
  proof (cases b)
    case False
    with W t have "throttled (api_limiter api) (trace w1)" by (auto elim: wait_failed_throttled)
    with W False show ?thesis by (simp add: assetDetail_def)
  next
    case True
    obtain resp w2 where G: "client_Get e (TickerDetails (Ticker asset)) w1 = (resp, w2)"
      by (cases "client_Get e (TickerDetails (Ticker asset)) w1")
    from t W True G have t2: "throttled (api_limiter api) (trace w2)"
      by (auto elim: wait_get_throttled)
    show ?thesis
    proof (cases "transport_err resp \<or> 300 \<le> StatusCode resp")
      case True
      with W \<open>b\<close> G t2 show ?thesis by (auto simp: assetDetail_def)
    next
      case ok: False
      show ?thesis
      proof (cases "rc_Results (decode resp fresh_respContent)")
        case (Ticker1 p)
        obtain x w3 where I: "fetch_image e api (ps_IconURL p) w2 = (x, w3)"
          by (cases "fetch_image e api (ps_IconURL p) w2")
        from fetch_image_throttled [OF t2, of e "ps_IconURL p"] I
        have t3: "throttled (api_limiter api) (trace w3)" by simp
        obtain y w4 where L: "fetch_image e api (ps_LogoURL p) w3 = (y, w4)"
          by (cases "fetch_image e api (ps_LogoURL p) w3")
        from fetch_image_throttled [OF t3, of e "ps_LogoURL p"] L
        have t4: "throttled (api_limiter api) (trace w4)" by simp
        show ?thesis
          using W \<open>b\<close> G ok Ticker1 I L t3 t4
          by (cases x; cases y) (simp_all add: assetDetail_def)
      qed (use W \<open>b\<close> G ok t2 in \<open>simp_all add: assetDetail_def\<close>)
    qed
  qed
qed

lemma assetDetails_throttled:
  "throttled (api_limiter api) (trace w) \<Longrightarrow>
   throttled (api_limiter api) (trace (snd (assetDetails e api details w)))"
proof (induction details arbitrary: w)
  case Nil
  then show ?case by simp
next
  case (Cons asset rest)
  from Cons.prems have "throttled (api_limiter api) (trace (snd (assetDetail e api asset w)))"
    by (rule assetDetail_throttled)
  then show ?case
    by (auto split: prod.splits outcome.splits intro!: Cons.IH simp: publish_trace)
qed

lemma delisted_item_trace: "trace (snd (delisted_item e api p sw)) = trace (snd sw)"
proof -
  have "\<And>x a w'. publish e api x (snd sw) = (a, w') \<Longrightarrow> trace w' = trace (snd sw)"
    by (metis publish_trace snd_conv)
  then show ?thesis
    by (auto simp: delisted_item_def Let_def split: option.splits prod.splits)
qed

lemma fold_delisted_item_trace:
  "trace (snd (fold (delisted_item e api) ps sw)) = trace (snd sw)"
  by (induction ps arbitrary: sw) (simp_all add: delisted_item_trace)

lemma delisted_pages_throttled:
  "throttled (api_limiter api) (trace w) \<Longrightarrow>
   throttled (api_limiter api) (trace (snd (delisted_pages e api k n resp rc st w)))"
proof (induction n arbitrary: resp rc st w)
  case 0
  then show ?case by simp
next
  case (Suc n)
  have f: "\<And>ps st' w'. fold (delisted_item e api) ps (st, w) = (st', w') \<Longrightarrow>
      throttled (api_limiter api) (trace w')"
    using Suc.prems by (metis fold_delisted_item_trace snd_conv)
  show ?case
    using Suc.prems
    by (auto simp: Let_def split: results.splits prod.splits bool.splits
        intro!: Suc.IH dest!: f elim: wait_failed_throttled wait_get_throttled)
qed

lemma delisted_types_throttled:
  "throttled (api_limiter api) (trace w) \<Longrightarrow>
   throttled (api_limiter api) (trace (snd (delisted_types e api k types st w)))"
proof (induction types arbitrary: st w)
  case Nil
  then show ?case by simp
next
  case (Cons assetType rest)
  show ?case
  proof (cases "limiter_Wait e (api_limiter api) w")
    case (Pair b w1)
    show ?thesis
    proof (cases b)
      case False
      with Pair Cons.prems show ?thesis by (auto elim: wait_failed_throttled)
    next
      case True
      obtain resp w2 where g: "client_Get e (ListTickers ''false'' assetType) w1 = (resp, w2)"
        by (cases "client_Get e (ListTickers ''false'' assetType) w1")
      from Cons.prems Pair True g have "throttled (api_limiter api) (trace w2)"
        by (auto elim: wait_get_throttled)
      then have "throttled (api_limiter api) (trace (snd (delisted_pages e api k 300 resp
          (decode resp fresh_respContent) (st\<lparr>updatedCount := 0\<rparr>) w2)))"
        by (rule delisted_pages_throttled)
      with Pair True g show ?thesis
        by (auto split: prod.splits outcome.splits intro!: Cons.IH)
    qed
  qed
qed

lemma grace_loop_trace: "trace (grace_loop e api deact m w) = trace w"
  by (induction m arbitrary: w) (auto simp: publish_trace)

lemma delistedAssets_throttled:
  assumes t: "throttled (api_limiter api) (trace w)"
  shows "throttled (api_limiter api) (trace (snd (delistedAssets e api fetched w)))"
proof (cases "load_location_ok e \<and> acquire_ok e")
  case False
  with t show ?thesis by (auto simp: delistedAssets_def)
next
  case env_ok: True
  show ?thesis
  proof (cases "query_active e")
    case None
    with env_ok t show ?thesis by (simp add: delistedAssets_def)
  next
    case (Some dbActiveAssets)
    show ?thesis
    proof (cases "inactive_candidates fetched dbActiveAssets = []")
      case True
      with env_ok Some t show ?thesis by (simp add: delistedAssets_def)
    next
      case False
      let ?st0 = "\<lparr>inactiveMap = build_inactiveMap (inactive_candidates fetched dbActiveAssets),
                    deactivated = [], updatedCount = 0\<rparr>"
      obtain r w1 where D: "delisted_types e api (length (inactive_candidates fetched dbActiveAssets))
          [''CS'', ''ADRC'', ''ETF''] ?st0 w = (r, w1)"
        by (cases "delisted_types e api (length (inactive_candidates fetched dbActiveAssets))
          [''CS'', ''ADRC'', ''ETF''] ?st0 w")
      from delisted_types_throttled [OF t, of e "length (inactive_candidates fetched dbActiveAssets)"
          "[''CS'', ''ADRC'', ''ETF'']" ?st0] D
      have t1: "throttled (api_limiter api) (trace w1)" by simp
      show ?thesis
        using env_ok Some False D t1
        by (cases r) (simp_all add: delistedAssets_def Let_def grace_loop_trace)
    qed
  qed
qed

lemma world0_throttled: "throttled l (trace world0)"
  by (simp add: throttled_def world0_def)

lemma StockTickers_body_throttled:
  assumes a: "Atoi (config_get (Config sub) ''rateLimit'') = Some rateLimit"
  shows "throttled (configured_limiter rateLimit)
           (trace (outside (snd (StockTickers_body e sub frame0))))"
proof -
  define api where "api = \<lparr>api_subscription = sub, api_limiter = configured_limiter rateLimit\<rparr>"
  define fr1 where "fr1 = go_defer SendSummary (frame0\<lparr>runSummary := new_RunSummary e sub\<rparr>)"
  have l: "api_limiter api = configured_limiter rateLimit" by (simp add: api_def)
  have o1: "outside fr1 = world0" by (simp add: fr1_def go_defer_def frame0_def)
  obtain r1 w1 where A: "assets_types e api [''CS'', ''ADRC'', ''ETF''] [] world0 = (r1, w1)"
    by (cases "assets_types e api [''CS'', ''ADRC'', ''ETF''] [] world0")
  have t1: "throttled (api_limiter api) (trace w1)"
    using assets_types_throttled [of api world0 e "[''CS'', ''ADRC'', ''ETF'']" "[]"] A
    by (simp add: world0_throttled)
  have c1: "call (assets_types e api [''CS'', ''ADRC'', ''ETF''] []) fr1 = (r1, fr1\<lparr>outside := w1\<rparr>)"
    using A by (simp add: call_def o1)
  show ?thesis
  proof (cases r1)
    case (Done fetched)
    show ?thesis
    proof (cases "filterAssetsByLastUpdated e fetched")
      case d: (Done details)
      obtain r2 w2 where B: "assetDetails e api details w1 = (r2, w2)"
        by (cases "assetDetails e api details w1")
      from assetDetails_throttled [OF t1, of e details] B
      have t2: "throttled (api_limiter api) (trace w2)" by simp
      obtain r3 w3 where C: "delistedAssets e api fetched w2 = (r3, w3)"
        by (cases "delistedAssets e api fetched w2")
      from delistedAssets_throttled [OF t2, of e fetched] C
      have t3: "throttled (api_limiter api) (trace w3)" by simp
      show ?thesis
        using a c1 Done d B C t2 t3 l
        by (cases r2; cases r3)
          (simp_all add: StockTickers_body_def api_def [symmetric] fr1_def [symmetric] call_def)
    qed (use a c1 Done t1 l in
        \<open>simp_all add: StockTickers_body_def api_def [symmetric] fr1_def [symmetric]\<close>)
  qed (use a c1 t1 l in \<open>simp_all add: StockTickers_body_def api_def [symmetric] fr1_def [symmetric]\<close>)
qed

text \<open>
  C7. In the Stock Tickers fetch the limiter is built with the rate \<^verbatim>\<open>rateLimit / 61\<close> and
  burst 1, with 5000 in place of a configured value that is not positive, and in the
  sequence of waits and requests of the whole fetch (listing pages, cursor follows, detail
  and image requests, the inactive listing) every request comes right after a successful
  wait on that limiter. When the configured value is not a number, no request is sent.
  The quotient is taken exactly; the rounding of \<^verbatim>\<open>float64\<close> is outside the model.
\<close>

theorem requests_follow_tokens:
  "case Atoi (config_get (Config sub) ''rateLimit'') of
     None \<Rightarrow> trace (final (StockTickers_Fetch e sub)) = []
   | Some rateLimit \<Rightarrow>
       throttled \<lparr>limit = of_int (if rateLimit \<le> 0 then 5000 else rateLimit) / 61, burst = 1\<rparr>
         (trace (final (StockTickers_Fetch e sub)))"
proof (cases "Atoi (config_get (Config sub) ''rateLimit'')")
  case None
  then show ?thesis
    by (simp add: StockTickers_Fetch_def go_call_final StockTickers_body_def go_defer_def
        frame0_def world0_def)
next
  case (Some rateLimit)
  from StockTickers_body_throttled [OF Some, of e]
  have "throttled (configured_limiter rateLimit) (trace (final (StockTickers_Fetch e sub)))"
    by (simp add: StockTickers_Fetch_def go_call_final)
  then have "throttled \<lparr>limit = of_int (if rateLimit \<le> 0 then 5000 else rateLimit) / 61, burst = 1\<rparr>
      (trace (final (StockTickers_Fetch e sub)))"
    by (simp add: configured_limiter_def NewLimiter_def)
  with Some show ?thesis by simp
qed

lemma assets_pages_unfold:
  assumes "0 < n"
  shows "assets_pages e api n resp respContent acc w =
     (if 300 \<le> status_of resp then (Failed (ErrInvalidStatusCode (status_of resp)), w)
      else case rc_Results respContent of
        Absent \<Rightarrow> (Panic NilDereference, w)
      | Tickers polygonTickers \<Rightarrow>
          (let assets' = acc @ List.map_filter (ticker_asset e) polygonTickers
           in if rc_Next respContent = [] then (Done assets', w)
              else (case limiter_Wait e (api_limiter api) w of
                      (False, w1) \<Rightarrow> (Panic LogPanic, w1)
                    | (True, w1) \<Rightarrow>
                        (case client_Get e (FollowCursor (rc_Next respContent)) w1 of
                           (resp', w2) \<Rightarrow>
                             if transport_err resp' then (Failed ErrHTTP, w2)
                             else assets_pages e api (n - 1) resp'
                                    (decode resp' (respContent\<lparr>rc_Next := []\<rparr>)) assets' w2)))
      | Malformed \<Rightarrow> (Failed ErrUnmarshal, w)
      | Ticker1 t \<Rightarrow> (Failed ErrUnmarshal, w))"
proof -
  from assms have n: "Suc (n - 1) = n" by simp
  show ?thesis
    using assets_pages.simps(2) [of e api "n - 1" resp respContent acc w]
    unfolding n .
qed

lemma paged_assets_CS:
  "assets paged_env sample_api ''CS'' world0 =
     (Done [], \<lparr>trace = [Wait (configured_limiter 0), Get (ListTickers ''true'' ''CS''),
                         Wait (configured_limiter 0), Get (FollowCursor ''cursor-2'')],
               waits = 2, published = []\<rparr>)"
  by (simp add: assets_def assets_pages_unfold paged_env_def quiet_env_def sample_api_def
      limiter_Wait_def client_Get_def world0_def page1_def page2_def not_found_def decode_def
      fresh_respContent_def status_of_def Let_def List.map_filter_def ticker_asset_def stock_a_def)


lemma paged_assets_ADRC:
  "assets paged_env sample_api ''ADRC''
     \<lparr>trace = [Wait (configured_limiter 0), Get (ListTickers ''true'' ''CS''),
               Wait (configured_limiter 0), Get (FollowCursor ''cursor-2'')],
      waits = 2, published = []\<rparr> =
     (Failed (ErrInvalidStatusCode 404),
      \<lparr>trace = [Wait (configured_limiter 0), Get (ListTickers ''true'' ''CS''),
                Wait (configured_limiter 0), Get (FollowCursor ''cursor-2''),
                Wait (configured_limiter 0), Get (ListTickers ''true'' ''ADRC'')],
       waits = 3, published = []\<rparr>)"
  by (simp add: assets_def assets_pages_unfold paged_env_def quiet_env_def sample_api_def
      limiter_Wait_def client_Get_def not_found_def decode_def fresh_respContent_def status_of_def)

lemma polygon_rateLimit: "Atoi (config_get (Config polygon_subscription) ''rateLimit'') = Some 0"
  by (simp add: polygon_subscription_def config_get_def Atoi_zero)

lemma paged_trace:
  "trace (final (StockTickers_Fetch paged_env polygon_subscription)) =
     [Wait (configured_limiter 0), Get (ListTickers ''true'' ''CS''),
      Wait (configured_limiter 0), Get (FollowCursor ''cursor-2''),
      Wait (configured_limiter 0), Get (ListTickers ''true'' ''ADRC'')]"
proof -
  have api: "\<lparr>api_subscription = polygon_subscription, api_limiter = configured_limiter 0\<rparr> = sample_api"
    by (simp add: sample_api_def)
  show ?thesis
    by (simp add: StockTickers_Fetch_def go_call_final StockTickers_body_def call_def go_defer_def
        frame0_def polygon_rateLimit api paged_assets_CS paged_assets_ADRC)
qed

theorem requests_follow_tokens_witness:
  "Atoi (config_get (Config polygon_subscription) ''rateLimit'') = Some 0
   \<and> trace (final (StockTickers_Fetch paged_env polygon_subscription)) =
       [Wait \<lparr>limit = 5000 / 61, burst = 1\<rparr>, Get (ListTickers ''true'' ''CS''),
        Wait \<lparr>limit = 5000 / 61, burst = 1\<rparr>, Get (FollowCursor ''cursor-2''),
        Wait \<lparr>limit = 5000 / 61, burst = 1\<rparr>, Get (ListTickers ''true'' ''ADRC'')]
   \<and> throttled \<lparr>limit = 5000 / 61, burst = 1\<rparr>
        (trace (final (StockTickers_Fetch paged_env polygon_subscription)))"
proof -
  have l: "configured_limiter 0 = \<lparr>limit = 5000 / 61, burst = 1\<rparr>"
    by (simp add: configured_limiter_def NewLimiter_def)
  from requests_follow_tokens [where e = paged_env and sub = polygon_subscription]
  have "throttled \<lparr>limit = 5000 / 61, burst = 1\<rparr>
        (trace (final (StockTickers_Fetch paged_env polygon_subscription)))"
    by (simp add: polygon_rateLimit)
  with polygon_rateLimit paged_trace l show ?thesis by simp
qed


subsection \<open>Polygon: reconciliation of delisted assets\<close>
























lemma sample_keyed:
  "CompositeFigi asset_old \<noteq> []" "AssetType asset_old \<noteq> UnknownAsset"
  "CompositeFigi asset_gone \<noteq> []" "AssetType asset_gone \<noteq> UnknownAsset"
  by (simp_all add: asset_old_def asset_gone_def zero_Asset_def UnknownAsset_def)












end
